theory Spec2Isabelle
  imports Complex_Main "HOL-Library.Multiset"
begin

section \<open>IncidentRouter: the assignment decision engine\<close>

text \<open>
  A shallow embedding of the scoring, filtering, ranking and commit logic of the
  repository: \<^verbatim>\<open>weight_calculator.py\<close>, \<^verbatim>\<open>utils.py\<close>,
  \<^verbatim>\<open>assignment_processor.py\<close> (the workflow variant) and \<^verbatim>\<open>processor.py\<close>
  (the queue-worker variant).

  Conventions of the embedding:
  \<^item> Python floats are modelled as \<open>real\<close>: rounding is not modelled.
  \<^item> A Python dict with string keys is an association list read with \<open>dict_get\<close>.
  \<^item> An exception is a value of type \<open>exn\<close>; a function that can raise returns
    \<open>exn + 'a\<close> with \<open>Inl\<close> for the raised exception.
  \<^item> The wall clock, the random generator, the ticketing system and the database are
    explicit arguments: what they answer is an input of the model.
  \<^item> A source name with a leading underscore loses it (\<^verbatim>\<open>_is_time_in_shift\<close> is
    \<open>is_time_in_shift\<close>).
\<close>

subsection \<open>Exceptions and log records\<close>

datatype exn =
    ServiceNowError
  | DatabaseError
  | WeightCalculationError
  | NoAvailableMembersError
  | TypeError
  | ValueError
  | KeyError
  | HTTPError
  | MySQLError
  | DetachedInstanceError

datatype log_record =
    LogWarning string
  | LogError string

subsection \<open>Dictionaries\<close>

definition dict_get :: "('k \<times> 'v) list \<Rightarrow> 'k \<Rightarrow> 'v \<Rightarrow> 'v" where
  \<comment> \<open>\<^verbatim>\<open>d.get(k, default)\<close>\<close>
  "dict_get d k dflt = (case map_of d k of Some v \<Rightarrow> v | None \<Rightarrow> dflt)"

subsection \<open>Time of day\<close>

text \<open>
  A naive \<^verbatim>\<open>datetime.time\<close>. Python orders two naive times as the tuples
  (hour, minute, second, microsecond).
\<close>

record time =
  hour :: nat
  minute :: nat
  second :: nat
  microsecond :: nat

definition time_lt :: "time \<Rightarrow> time \<Rightarrow> bool" where
  "time_lt a b =
     (hour a < hour b \<or> (hour a = hour b \<and>
       (minute a < minute b \<or> (minute a = minute b \<and>
         (second a < second b \<or> (second a = second b \<and>
           microsecond a < microsecond b))))))"

definition time_le :: "time \<Rightarrow> time \<Rightarrow> bool" where
  "time_le a b =
     (hour a < hour b \<or> (hour a = hour b \<and>
       (minute a < minute b \<or> (minute a = minute b \<and>
         (second a < second b \<or> (second a = second b \<and>
           microsecond a \<le> microsecond b))))))"

definition hm :: "nat \<Rightarrow> nat \<Rightarrow> time" where
  \<comment> \<open>\<^verbatim>\<open>time(h, m)\<close>\<close>
  "hm h m = \<lparr>hour = h, minute = m, second = 0, microsecond = 0\<rparr>"

text \<open>
  A \<^verbatim>\<open>datetime\<close> as far as the engine reads it: \<^verbatim>\<open>weekday()\<close>
  (0 is Monday, 6 is Sunday) and \<^verbatim>\<open>time()\<close>.
\<close>

record datetime =
  weekday :: nat
  time_of :: time

subsection \<open>Configuration (config.py)\<close>

record config =
  workload_weight :: real
  role_weight :: real
  availability_weight :: real

definition default_config :: config where
  "default_config = \<lparr>workload_weight = 0.4, role_weight = 0.3, availability_weight = 0.3\<rparr>"

definition PRIORITY_WEIGHTS :: "(string \<times> real) list" where
  "PRIORITY_WEIGHTS = [(''1'', 5.0), (''2'', 3.0), (''3'', 2.0), (''4'', 1.0), (''5'', 0.5)]"

definition ROLE_MULTIPLIERS :: "(string \<times> real) list" where
  "ROLE_MULTIPLIERS = [(''L3'', 1.5), (''L2'', 1.2), (''L1'', 1.0), (''TRAINEE'', 0.8)]"

subsection \<open>Shift window and proximity (weight_calculator.py)\<close>

definition is_time_in_shift :: "time \<Rightarrow> time \<Rightarrow> time \<Rightarrow> bool" where
  "is_time_in_shift current_time shift_start shift_end =
     (if time_le shift_start shift_end
      then time_le shift_start current_time \<and> time_le current_time shift_end
      else time_le shift_start current_time \<or> time_le current_time shift_end)"

definition shift_distances :: "time \<Rightarrow> time \<Rightarrow> time \<Rightarrow> int \<times> int" where
  \<comment> \<open>the locals \<^verbatim>\<open>distance_to_start\<close> and \<^verbatim>\<open>distance_to_end\<close> of
      \<^verbatim>\<open>_calculate_shift_proximity\<close>\<close>
  "shift_distances current_time shift_start shift_end =
     (let current_minutes = int (hour current_time * 60 + minute current_time);
          start_minutes = int (hour shift_start * 60 + minute shift_start);
          end_minutes = int (hour shift_end * 60 + minute shift_end);
          crossing = (start_minutes > end_minutes);
          end_minutes' = (if crossing then end_minutes + 24 * 60 else end_minutes);
          current_minutes' =
            (if crossing \<and> current_minutes < start_minutes
             then current_minutes + 24 * 60 else current_minutes);
          distance_to_start = \<bar>current_minutes' - start_minutes\<bar>;
          distance_to_end = \<bar>current_minutes' - end_minutes'\<bar>
      in (distance_to_start, distance_to_end))"

definition shift_min_distance :: "time \<Rightarrow> time \<Rightarrow> time \<Rightarrow> int" where
  \<comment> \<open>the local \<^verbatim>\<open>min_distance\<close>\<close>
  "shift_min_distance current_time shift_start shift_end =
     (case shift_distances current_time shift_start shift_end of
        (distance_to_start, distance_to_end) \<Rightarrow> min distance_to_start distance_to_end)"

definition calculate_shift_proximity :: "time \<Rightarrow> time \<Rightarrow> time \<Rightarrow> real" where
  "calculate_shift_proximity current_time shift_start shift_end =
     (let min_distance = shift_min_distance current_time shift_start shift_end;
          max_distance = 4 * 60
      in max 0.1 (1.0 - (real_of_int min_distance / real_of_int max_distance)))"

subsection \<open>Workload score (weight_calculator.py)\<close>

type_synonym incident = "(string \<times> string) list"

definition incident_weight :: "incident \<Rightarrow> real" where
  \<comment> \<open>one turn of the loop: the priority, then its entry of the table\<close>
  "incident_weight incident =
     (let priority = dict_get incident ''priority'' ''4''
      in dict_get PRIORITY_WEIGHTS priority 1.0)"

definition weighted_count :: "incident list \<Rightarrow> real" where
  "weighted_count current_incidents =
     foldl (\<lambda>acc incident. acc + incident_weight incident) 0.0 current_incidents"

definition calculate_workload_score :: "incident list \<Rightarrow> real" where
  "calculate_workload_score current_incidents =
     (if current_incidents = [] then 1.0
      else 1.0 / (1.0 + (weighted_count current_incidents * 0.5)))"

subsection \<open>Roster rows (models.py)\<close>

text \<open>
  A \<^verbatim>\<open>MemberData\<close> row as far as the engine reads it. \<^verbatim>\<open>experience_level\<close> is a
  nullable column: \<open>None\<close> is SQL NULL. The two flags hold the truth value Python gives
  the column (NULL is false).
\<close>

record MemberData =
  member_id :: string
  member_name :: string
  role :: string
  experience_level :: "int option"
  shift_start :: string
  shift_end :: string
  weekend_shift_flag :: bool
  is_active :: bool

subsection \<open>Role score (weight_calculator.py)\<close>

definition upper_char :: "char \<Rightarrow> char" where
  "upper_char c =
     (case map_of (zip ''abcdefghijklmnopqrstuvwxyz'' ''ABCDEFGHIJKLMNOPQRSTUVWXYZ'') c of
        Some u \<Rightarrow> u
      | None \<Rightarrow> c)"

definition upper :: "string \<Rightarrow> string" where
  \<comment> \<open>\<^verbatim>\<open>str.upper()\<close> on ASCII\<close>
  "upper s = map upper_char s"

definition calculate_role_score :: "string \<Rightarrow> int option \<Rightarrow> exn + real" where
  \<comment> \<open>\<^verbatim>\<open>None * 0.02\<close> raises TypeError\<close>
  "calculate_role_score role' experience_level' =
     (let base_multiplier = dict_get ROLE_MULTIPLIERS (upper role') 1.0
      in case experience_level' of
           None \<Rightarrow> Inl TypeError
         | Some years \<Rightarrow>
             (let experience_bonus = min (real_of_int years * 0.02) 0.2
              in Inr (base_multiplier * (1.0 + experience_bonus))))"

subsection \<open>Availability score (weight_calculator.py)\<close>

text \<open>
  \<^verbatim>\<open>time.fromisoformat\<close> belongs to the Python library: it is the argument
  \<open>parse\<close>, with \<open>None\<close> for a ValueError. \<open>fromisoformat_hhmm\<close> is its restriction
  to the format the roster documents, \<^verbatim>\<open>HH:MM\<close>. The two readings of the clock in
  \<^verbatim>\<open>_calculate_availability_score\<close> are one argument \<open>now\<close>.
\<close>

definition digit_of :: "char \<Rightarrow> nat option" where
  "digit_of c =
     (let n = (of_char c :: nat) in if 48 \<le> n \<and> n \<le> 57 then Some (n - 48) else None)"

fun fromisoformat_hhmm :: "string \<Rightarrow> time option" where
  "fromisoformat_hhmm [h1, h2, c, m1, m2] =
     (case (digit_of h1, digit_of h2, digit_of m1, digit_of m2) of
        (Some a, Some b, Some x, Some y) \<Rightarrow>
          (if c = CHR '':'' \<and> 10 * a + b < 24 \<and> 10 * x + y < 60
           then Some (hm (10 * a + b) (10 * x + y)) else None)
      | _ \<Rightarrow> None)"
| "fromisoformat_hhmm _ = None"

definition invalid_shift_warning :: "MemberData \<Rightarrow> log_record" where
  "invalid_shift_warning member =
     LogWarning (''Invalid shift time format for member '' @ member_id member)"

definition calculate_availability_score ::
  "(string \<Rightarrow> time option) \<Rightarrow> datetime \<Rightarrow> MemberData \<Rightarrow> real \<times> log_record list" where
  "calculate_availability_score parse now member =
     (let current_time = time_of now;
          current_day = weekday now;
          is_weekend = (current_day \<ge> 5)
      in if is_weekend \<and> \<not> weekend_shift_flag member then (0.1, [])
         else
           (case parse (shift_start member) of
              None \<Rightarrow> (0.5, [invalid_shift_warning member])
            | Some shift_start' \<Rightarrow>
                (case parse (shift_end member) of
                   None \<Rightarrow> (0.5, [invalid_shift_warning member])
                 | Some shift_end' \<Rightarrow>
                     (if is_time_in_shift current_time shift_start' shift_end'
                      then (1.0, [])
                      else (calculate_shift_proximity current_time shift_start' shift_end',
                            [])))))"

subsection \<open>Composite weights and ranking (weight_calculator.py)\<close>

record calculation_details =
  workload_incidents :: nat
  workload_score_raw :: real
  role_score_raw :: real
  availability_score_raw :: real
  weights_applied :: config
  incident_priority :: string
  member_role :: string
  member_experience :: "int option"

record MemberWeight =
  mw_member_id :: string
  mw_member_name :: string
  workload_score :: real
  role_score :: real
  availability_score :: real
  final_weight :: real
  details :: calculation_details

definition workloads_get :: "(string \<rightharpoonup> incident list) \<Rightarrow> string \<Rightarrow> incident list" where
  \<comment> \<open>\<^verbatim>\<open>member_workloads.get(member.member_id, [])\<close>\<close>
  "workloads_get member_workloads k =
     (case member_workloads k of Some v \<Rightarrow> v | None \<Rightarrow> [])"

definition score_member ::
  "config \<Rightarrow> (string \<Rightarrow> time option) \<Rightarrow> datetime \<Rightarrow> (string \<rightharpoonup> incident list) \<Rightarrow> string \<Rightarrow>
   MemberData \<Rightarrow> exn + MemberWeight" where
  \<comment> \<open>the body of the \<^verbatim>\<open>try\<close> in the loop of \<^verbatim>\<open>calculate_member_weights\<close>\<close>
  "score_member cfg parse now member_workloads incident_priority' member =
     (let workload_score' =
            calculate_workload_score (workloads_get member_workloads (member_id member))
      in case calculate_role_score (role member) (experience_level member) of
           Inl e \<Rightarrow> Inl e
         | Inr role_score' \<Rightarrow>
             (let availability_score' = fst (calculate_availability_score parse now member);
                  final_weight' =
                    workload_score' * workload_weight cfg +
                    role_score' * role_weight cfg +
                    availability_score' * availability_weight cfg;
                  calculation_details' =
                    \<lparr>workload_incidents =
                       length (workloads_get member_workloads (member_id member)),
                     workload_score_raw = workload_score',
                     role_score_raw = role_score',
                     availability_score_raw = availability_score',
                     weights_applied = cfg,
                     incident_priority = incident_priority',
                     member_role = role member,
                     member_experience = experience_level member\<rparr>
              in Inr \<lparr>mw_member_id = member_id member,
                      mw_member_name = member_name member,
                      workload_score = workload_score',
                      role_score = role_score',
                      availability_score = availability_score',
                      final_weight = final_weight',
                      details = calculation_details'\<rparr>))"

fun collect_weights :: "('a \<Rightarrow> exn + 'b) \<Rightarrow> 'a list \<Rightarrow> 'b list" where
  \<comment> \<open>the loop: a member whose body raises is logged and skipped (\<^verbatim>\<open>continue\<close>)\<close>
  "collect_weights f [] = []"
| "collect_weights f (member # rest) =
     (case f member of
        Inl e \<Rightarrow> collect_weights f rest
      | Inr member_weight \<Rightarrow> member_weight # collect_weights f rest)"

definition sort_descending :: "MemberWeight list \<Rightarrow> MemberWeight list" where
  \<comment> \<open>\<^verbatim>\<open>sort(key=lambda x: x.final_weight, reverse=True)\<close>: Python's sort is stable, also
      with \<^verbatim>\<open>reverse=True\<close>, which is a stable ascending sort on the negated key\<close>
  "sort_descending ws = sort_key (\<lambda>x. - final_weight x) ws"

definition calculate_member_weights ::
  "config \<Rightarrow> (string \<Rightarrow> time option) \<Rightarrow> datetime \<Rightarrow> MemberData list \<Rightarrow>
   (string \<rightharpoonup> incident list) \<Rightarrow> string \<Rightarrow> exn + MemberWeight list" where
  "calculate_member_weights cfg parse now available_members member_workloads incident_priority' =
     (if available_members = [] then Inl WeightCalculationError
      else
        (let member_weights =
               collect_weights (score_member cfg parse now member_workloads incident_priority')
                 available_members
         in if member_weights = [] then Inl WeightCalculationError
            else Inr (sort_descending member_weights)))"

fun join :: "string \<Rightarrow> string list \<Rightarrow> string" where
  \<comment> \<open>\<^verbatim>\<open>sep.join(parts)\<close>\<close>
  "join sep [] = []"
| "join sep [p] = p"
| "join sep (p # q # ps) = p @ sep @ join sep (q # ps)"

definition reason_parts :: "MemberWeight \<Rightarrow> string list" where
  "reason_parts best_member =
     (if workload_score best_member > 0.8 then [''low current workload'']
      else if workload_score best_member > 0.5 then [''moderate workload'']
      else [''manageable workload'']) @
     (if role_score best_member > 1.2 then [''high experience level'']
      else if role_score best_member > 1.0 then [''suitable experience'']
      else []) @
     (if availability_score best_member > 0.9 then [''currently available'']
      else if availability_score best_member > 0.5 then [''partially available'']
      else [])"

definition select_best_member ::
  "(real \<Rightarrow> string) \<Rightarrow> MemberWeight list \<Rightarrow> exn + (MemberWeight \<times> string)" where
  \<comment> \<open>\<open>fmt4\<close> is the library's \<^verbatim>\<open>:.4f\<close> formatting of a float\<close>
  "select_best_member fmt4 member_weights =
     (case member_weights of
        [] \<Rightarrow> Inl WeightCalculationError
      | best_member # _ \<Rightarrow>
          Inr (best_member,
               ''Selected '' @ mw_member_name best_member @ '' due to: '' @
               join '', '' (reason_parts best_member) @
               ''. Final weight: '' @ fmt4 (final_weight best_member)))"

subsection \<open>Availability filters (assignment_processor.py, utils.py)\<close>

definition is_member_currently_available ::
  "(string \<Rightarrow> time option) \<Rightarrow> datetime \<Rightarrow> MemberData \<Rightarrow> datetime \<Rightarrow> bool \<times> log_record list" where
  \<comment> \<open>\<open>now\<close> is the clock as the calculator reads it inside the call\<close>
  "is_member_currently_available parse now member current_time =
     (let is_weekend = (weekday current_time \<ge> 5)
      in if is_weekend \<and> \<not> weekend_shift_flag member then (False, [])
         else
           (case parse (shift_start member) of
              None \<Rightarrow> (True, [invalid_shift_warning member])
            | Some shift_start' \<Rightarrow>
                (case parse (shift_end member) of
                   None \<Rightarrow> (True, [invalid_shift_warning member])
                 | Some shift_end' \<Rightarrow>
                     (let current_time_only = time_of current_time;
                          in_shift =
                            (if time_le shift_start' shift_end'
                             then time_le shift_start' current_time_only \<and>
                                  time_le current_time_only shift_end'
                             else time_le shift_start' current_time_only \<or>
                                  time_le current_time_only shift_end')
                      in if \<not> in_shift
                         then
                           (case calculate_availability_score parse now member of
                              (availability_score', logs) \<Rightarrow>
                                if availability_score' < 0.3 then (False, logs)
                                else (True, logs))
                         else (True, [])))))"

fun filter_currently_available ::
  "(string \<Rightarrow> time option) \<Rightarrow> datetime \<Rightarrow> datetime \<Rightarrow> MemberData list \<Rightarrow> MemberData list" where
  \<comment> \<open>the second loop of \<^verbatim>\<open>get_available_members\<close>\<close>
  "filter_currently_available parse now current_time [] = []"
| "filter_currently_available parse now current_time (member # rest) =
     (if fst (is_member_currently_available parse now member current_time)
      then member # filter_currently_available parse now current_time rest
      else filter_currently_available parse now current_time rest)"

datatype pyval = PyNone | PyBool bool | PyInt int | PyStr string

fun truthy :: "pyval \<Rightarrow> bool" where
  "truthy PyNone = False"
| "truthy (PyBool b) = b"
| "truthy (PyInt n) = (n \<noteq> 0)"
| "truthy (PyStr s) = (s \<noteq> [])"

type_synonym member_dict = "(string \<times> pyval) list"

fun filter_available_members :: "member_dict list \<Rightarrow> datetime \<Rightarrow> member_dict list" where
  "filter_available_members [] current_time = []"
| "filter_available_members (member # rest) current_time =
     (if \<not> truthy (dict_get member ''is_active'' (PyBool True))
      then filter_available_members rest current_time
      else
        (let is_weekend = (weekday current_time \<ge> 5)
         in if is_weekend \<and> \<not> truthy (dict_get member ''weekend_shift_flag'' (PyBool False))
            then filter_available_members rest current_time
            else member # filter_available_members rest current_time))"

subsection \<open>The system of record and the audit store\<close>

text \<open>
  The ticketing system holds, for every work item, its holder (the field
  \<^verbatim>\<open>assigned_to\<close>, the empty string when nobody holds it). The audit store is the
  list of decision records written so far. An event is a call the engine issues: a fetch
  of the holder with what it returned, a commit call (the write of \<^verbatim>\<open>assigned_to\<close>)
  with whether it succeeded, and a write of a decision record with whether it succeeded.
\<close>

record 'h world =
  assigned_to :: "string \<Rightarrow> string"
  history :: "'h list"

datatype event =
    FetchHolder string "exn + incident"
  | Commit string string bool
  | RecordDecision string string bool

datatype response = Raises | NoResult | Result

definition held :: "incident \<Rightarrow> bool" where
  \<comment> \<open>the truth value of \<^verbatim>\<open>inc.get('assigned_to')\<close>\<close>
  "held inc = (case map_of inc ''assigned_to'' of None \<Rightarrow> False | Some v \<Rightarrow> v \<noteq> [])"

fun is_commit :: "event \<Rightarrow> bool" where
  "is_commit (Commit i m ok) = True"
| "is_commit _ = False"

fun is_record :: "event \<Rightarrow> bool" where
  "is_record (RecordDecision i m ok) = True"
| "is_record _ = False"

fun saw_holder :: "event \<Rightarrow> bool" where
  "saw_holder (FetchHolder i (Inr inc)) = held inc"
| "saw_holder _ = False"

subsection \<open>The queue worker: candidates and scores (processor.py)\<close>

definition PRIORITY_WEIGHT :: "(string \<times> real) list" where
  "PRIORITY_WEIGHT = [(''1'', 6.0), (''2'', 3.0), (''3'', 1.0), (''4'', 0.5), (''5'', 0.5)]"

definition SEVERITY_MULT :: "(string \<times> real) list" where
  "SEVERITY_MULT = [(''1'', 1.3), (''2'', 1.1), (''3'', 1.0)]"

definition ROLE_MULT :: "(string \<times> real) list" where
  "ROLE_MULT = [(''L1'', 1.20), (''L2'', 1.00), (''L3'', 0.90), (''SME'', 0.85)]"

text \<open>
  A row of the member table as the worker reads it; \<open>None\<close> is SQL NULL. The
  connection of \<^verbatim>\<open>get_db_conn\<close> uses the default decoders of the driver, which hand a
  TIME column over as a \<^verbatim>\<open>timedelta\<close> and a character column as a \<^verbatim>\<open>str\<close>:
  a shift time never arrives as a \<^verbatim>\<open>datetime.time\<close>.
\<close>

datatype sql_time = Timedelta nat | Varchar string

record member_row =
  member_sys_id :: string
  row_member_name :: "string option"
  row_role :: "string option"
  weight_modifier :: "real option"
  shift_days :: "string option"
  row_weekend_shift_flag :: bool
  shift_start_time :: "sql_time option"
  shift_end_time :: "sql_time option"

definition str_or :: "string option \<Rightarrow> string \<Rightarrow> string" where
  \<comment> \<open>\<^verbatim>\<open>v or default\<close> for a string or None\<close>
  "str_or v dflt = (case v of None \<Rightarrow> dflt | Some s \<Rightarrow> if s = [] then dflt else s)"

fun starts_with :: "string \<Rightarrow> string \<Rightarrow> bool" where
  "starts_with [] s = True"
| "starts_with (p # ps) [] = False"
| "starts_with (p # ps) (c # cs) = (p = c \<and> starts_with ps cs)"

fun contains :: "string \<Rightarrow> string \<Rightarrow> bool" where
  \<comment> \<open>\<^verbatim>\<open>sub in s\<close>\<close>
  "contains sub [] = (sub = [])"
| "contains sub (c # cs) = (starts_with sub (c # cs) \<or> contains sub cs)"

definition day_abbr :: "nat \<Rightarrow> string" where
  \<comment> \<open>\<^verbatim>\<open>strftime('%a')\<close>\<close>
  "day_abbr d =
     (if d < 7 then [''Mon'', ''Tue'', ''Wed'', ''Thu'', ''Fri'', ''Sat'', ''Sun''] ! d
      else [])"

definition row_in_shift :: "datetime \<Rightarrow> member_row \<Rightarrow> exn + bool" where
  \<comment> \<open>one turn of the filter loop of \<^verbatim>\<open>fetch_member_rows_from_db\<close>: is the row kept.
      The body first evaluates \<^verbatim>\<open>start <= incident_time\<close>, a \<^verbatim>\<open>timedelta\<close> or a
      \<^verbatim>\<open>str\<close> against a \<^verbatim>\<open>datetime.time\<close>, which raises TypeError: the rest of the
      body is never reached\<close>
  "row_in_shift incident_local r =
     (let weekday' = day_abbr (weekday incident_local);
          shift_days' = str_or (shift_days r) [];
          day_passes =
            (if \<not> contains weekday' shift_days'
             then (if weekday incident_local \<ge> 5 \<and> \<not> row_weekend_shift_flag r then False
                   else if \<not> contains weekday' shift_days' then False
                   else True)
             else True)
      in if \<not> day_passes then Inr False
         else
           (case shift_start_time r of
              None \<Rightarrow> Inr False
            | Some start \<Rightarrow>
                (case shift_end_time r of
                   None \<Rightarrow> Inr False
                 | Some end' \<Rightarrow> Inl TypeError)))"

fun filter_rows :: "datetime \<Rightarrow> member_row list \<Rightarrow> exn + member_row list" where
  \<comment> \<open>the filter loop: an exception in one turn ends it\<close>
  "filter_rows incident_dt [] = Inr []"
| "filter_rows incident_dt (r # rest) =
     (case row_in_shift incident_dt r of
        Inl e \<Rightarrow> Inl e
      | Inr keep \<Rightarrow>
          (case filter_rows incident_dt rest of
             Inl e \<Rightarrow> Inl e
           | Inr filtered \<Rightarrow> Inr (if keep then r # filtered else filtered)))"

definition fetch_member_rows_from_db ::
  "(exn + member_row list) \<Rightarrow> string list \<Rightarrow> datetime \<Rightarrow> exn + member_row list" where
  \<comment> \<open>\<open>query\<close> is what the SELECT answers\<close>
  "fetch_member_rows_from_db query member_ids incident_dt =
     (if member_ids = [] then Inr []
      else
        (case query of
           Inl e \<Rightarrow> Inl e
         | Inr rows \<Rightarrow> filter_rows incident_dt rows))"

text \<open>
  What the collaborators answer while one record is processed. Timestamps are seconds;
  \<open>parse_ts\<close> is the library's parsing of a timestamp (\<^verbatim>\<open>fromisoformat\<close>, then
  \<^verbatim>\<open>strptime\<close>), \<open>None\<close> when both raise. \<open>jitter i\<close> is the i-th draw of
  \<^verbatim>\<open>random.uniform(0, 0.01)\<close>. \<open>rival\<close> is what another worker writes into the
  holder between the two checks (the empty string: nothing).
\<close>

record env =
  pre_response :: response
  group_members :: "exn + string list"
  member_query :: "exn + member_row list"
  parse_dt :: "string \<Rightarrow> datetime option"
  utcnow :: datetime
  assigned_incidents :: "string \<Rightarrow> exn + incident list"
  recent_assignments :: "string \<Rightarrow> exn + nat"
  parse_ts :: "string \<Rightarrow> real option"
  now_ts :: real
  jitter :: "nat \<Rightarrow> real"
  rival :: string
  post_response :: response
  patch_ok :: bool
  insert_ok :: bool

definition opened_timestamp :: "(string \<Rightarrow> real option) \<Rightarrow> real \<Rightarrow> incident \<Rightarrow> real" where
  "opened_timestamp parse now_dt inc =
     (let opened_at =
            (case map_of inc ''opened_at'' of
               None \<Rightarrow> map_of inc ''sys_created_on''
             | Some s \<Rightarrow> if s = [] then map_of inc ''sys_created_on'' else Some s)
      in case opened_at of
           None \<Rightarrow> now_dt
         | Some s \<Rightarrow> (case parse s of None \<Rightarrow> now_dt | Some t \<Rightarrow> t))"

definition incident_contribution ::
  "(string \<Rightarrow> real option) \<Rightarrow> real \<Rightarrow> incident \<Rightarrow> real" where
  "incident_contribution parse now_dt inc =
     (let p = str_or (map_of inc ''priority'') ''3'';
          s = str_or (map_of inc ''severity'') ''3'';
          opened_dt = opened_timestamp parse now_dt inc;
          age_hours = max 0.0 ((now_dt - opened_dt) / 3600.0);
          age_factor = 1.0 + (age_hours / 24.0);
          p_weight = dict_get PRIORITY_WEIGHT p 1.0;
          s_mult = dict_get SEVERITY_MULT s 1.0
      in p_weight * s_mult * age_factor)"

definition compute_base_workload ::
  "(string \<Rightarrow> real option) \<Rightarrow> real \<Rightarrow> incident list \<Rightarrow> real" where
  "compute_base_workload parse now_dt assigned_incidents' =
     foldl (\<lambda>base inc. base + incident_contribution parse now_dt inc) 0.0
       assigned_incidents'"

record score_entry =
  se_member_sys_id :: string
  se_member_name :: "string option"
  se_base_workload :: real
  se_role_mult :: real
  se_weight_mod :: real
  se_recent_count :: nat
  se_final_weight :: real

fun score_candidates :: "env \<Rightarrow> nat \<Rightarrow> member_row list \<Rightarrow> exn + score_entry list" where
  \<comment> \<open>the loop of \<^verbatim>\<open>select_best_member\<close>; \<open>i\<close> counts the draws of the generator\<close>
  "score_candidates env i [] = Inr []"
| "score_candidates env i (c # rest) =
     (let member_id' = member_sys_id c;
          role' = str_or (row_role c) ''L2'';
          weight_mod =
            (case weight_modifier c of None \<Rightarrow> 1.0 | Some x \<Rightarrow> if x = 0 then 1.0 else x)
      in case assigned_incidents env member_id' of
           Inl e \<Rightarrow> Inl e
         | Inr assigned \<Rightarrow>
             (let base_workload = compute_base_workload (parse_ts env) (now_ts env) assigned
              in case recent_assignments env member_id' of
                   Inl e \<Rightarrow> Inl e
                 | Inr recent_count \<Rightarrow>
                     (let role_mult = dict_get ROLE_MULT role' 1.0;
                          final = (base_workload * role_mult * weight_mod) +
                                  0.1 * real recent_count;
                          final' = final + jitter env i;
                          entry = \<lparr>se_member_sys_id = member_id',
                                   se_member_name = row_member_name c,
                                   se_base_workload = base_workload,
                                   se_role_mult = role_mult,
                                   se_weight_mod = weight_mod,
                                   se_recent_count = recent_count,
                                   se_final_weight = final'\<rparr>
                      in case score_candidates env (Suc i) rest of
                           Inl e \<Rightarrow> Inl e
                         | Inr scores \<Rightarrow> Inr (entry # scores))))"

definition processor_select_best_member ::
  "env \<Rightarrow> member_row list \<Rightarrow> exn + (string option \<times> score_entry list)" where
  \<comment> \<open>\<^verbatim>\<open>select_best_member\<close> of processor.py: the lowest final weight wins\<close>
  "processor_select_best_member env candidates =
     (case score_candidates env 0 candidates of
        Inl e \<Rightarrow> Inl e
      | Inr scores \<Rightarrow>
          (case sort_key se_final_weight scores of
             [] \<Rightarrow> Inr (None, [])
           | best # others \<Rightarrow> Inr (Some (se_member_sys_id best), best # others)))"

subsection \<open>The queue worker: the commit protocol (processor.py)\<close>

record work_item =
  wi_sys_id :: string
  wi_number :: string
  wi_assignment_group_sys_id :: string
  wi_opened_at :: "string option"

text \<open>
  A row of the history table, column by column. The INSERT of
  \<^verbatim>\<open>record_assignment_history\<close> lists the columns incident_sys_id, incident_number,
  assigned_to_member_sys_id, assignment_timestamp, algorithm_snapshot, success,
  created_by, and gives the values \<^verbatim>\<open>%s, %s, NOW(), %s, %s, %s, %s\<close>: the third
  column receives \<^verbatim>\<open>NOW()\<close> and the fourth the member id.
\<close>

datatype sql_value = SqlNow | SqlParam string

record history_row =
  hr_incident_sys_id :: string
  hr_incident_number :: string
  hr_assigned_to_member_sys_id :: sql_value
  hr_assignment_timestamp :: sql_value
  hr_algorithm_snapshot :: "score_entry list \<times> string"
  hr_success :: bool
  hr_created_by :: string

datatype outcome =
    IncidentNotFound
  | AlreadyAssigned
  | NoMembers
  | NoAvailableMembers
  | NoCandidate
  | AssignedDuringProcessing
  | Assigned
  | Failed exn

definition confirm_incident_unassigned ::
  "response \<Rightarrow> (string \<Rightarrow> string) \<Rightarrow> string \<Rightarrow> exn + incident" where
  \<comment> \<open>the GET of the incident: it raises, or answers no result, or answers the record\<close>
  "confirm_incident_unassigned resp store incident_sys_id =
     (case resp of
        Raises \<Rightarrow> Inl HTTPError
      | NoResult \<Rightarrow> Inr []
      | Result \<Rightarrow>
          Inr [(''assigned_to'', store incident_sys_id), (''sys_id'', incident_sys_id)])"

definition incident_datetime :: "env \<Rightarrow> string option \<Rightarrow> exn + datetime" where
  \<comment> \<open>\<^verbatim>\<open>datetime.fromisoformat(...) if opened_at else datetime.utcnow()\<close>\<close>
  "incident_datetime env opened_at =
     (case opened_at of
        None \<Rightarrow> Inr (utcnow env)
      | Some s \<Rightarrow>
          (if s = [] then Inr (utcnow env)
           else (case parse_dt env s of None \<Rightarrow> Inl ValueError | Some dt \<Rightarrow> Inr dt)))"

definition gather_and_score ::
  "nat \<Rightarrow> env \<Rightarrow> work_item \<Rightarrow> outcome + (string \<times> score_entry list)" where
  \<comment> \<open>from the fetch of the group members to the selected member: \<open>Inl\<close> is the
      \<^verbatim>\<open>continue\<close> taken, or the exception caught by the handler\<close>
  "gather_and_score max_candidates env body =
     (case group_members env of
        Inl e \<Rightarrow> Inl (Failed e)
      | Inr group_members' \<Rightarrow>
          if group_members' = [] then Inl NoMembers
          else
            (case incident_datetime env (wi_opened_at body) of
               Inl e \<Rightarrow> Inl (Failed e)
             | Inr incident_dt \<Rightarrow>
                 (case fetch_member_rows_from_db (member_query env) group_members'
                         incident_dt of
                    Inl e \<Rightarrow> Inl (Failed e)
                  | Inr member_rows \<Rightarrow>
                      if member_rows = [] then Inl NoAvailableMembers
                      else
                        (let candidates = take max_candidates member_rows
                         in case processor_select_best_member env candidates of
                              Inl e \<Rightarrow> Inl (Failed e)
                            | Inr (selected_member, score_snapshot) \<Rightarrow>
                                (case selected_member of
                                   None \<Rightarrow> Inl NoCandidate
                                 | Some selected \<Rightarrow>
                                     if selected = [] then Inl NoCandidate
                                     else Inr (selected, score_snapshot))))))"

definition processor_assign_incident_to_member ::
  "bool \<Rightarrow> 'h world \<Rightarrow> string \<Rightarrow> string \<Rightarrow> exn + 'h world" where
  \<comment> \<open>\<^verbatim>\<open>assign_incident_to_member\<close> of processor.py, the commit call: the PATCH of
      \<^verbatim>\<open>assigned_to\<close>; \<open>ok\<close> is whether the request goes through\<close>
  "processor_assign_incident_to_member ok w incident_sys_id member_sys_id' =
     (if ok
      then Inr (w\<lparr>assigned_to := (assigned_to w)(incident_sys_id := member_sys_id')\<rparr>)
      else Inl HTTPError)"

definition record_assignment_history ::
  "bool \<Rightarrow> history_row world \<Rightarrow> string \<Rightarrow> string \<Rightarrow> string \<Rightarrow>
   score_entry list \<times> string \<Rightarrow> exn + history_row world" where
  \<comment> \<open>\<open>ok\<close> is whether the database takes the INSERT\<close>
  "record_assignment_history ok w incident_sys_id incident_number member_sys_id' snapshot =
     (if ok
      then Inr (w\<lparr>history := history w @
                  [\<lparr>hr_incident_sys_id = incident_sys_id,
                    hr_incident_number = incident_number,
                    hr_assigned_to_member_sys_id = SqlNow,
                    hr_assignment_timestamp = SqlParam member_sys_id',
                    hr_algorithm_snapshot = snapshot,
                    hr_success = True,
                    hr_created_by = ''lambda_processor''\<rparr>]\<rparr>)
      else Inl MySQLError)"

definition process_record ::
  "nat \<Rightarrow> env \<Rightarrow> history_row world \<Rightarrow> work_item \<Rightarrow>
   outcome \<times> event list \<times> history_row world" where
  \<comment> \<open>one turn of the loop of \<^verbatim>\<open>lambda_handler\<close>, with its \<^verbatim>\<open>try\<close>\<close>
  "process_record max_candidates env w body =
     (let incident_sys_id = wi_sys_id body;
          incident_number = wi_number body
      in case confirm_incident_unassigned (pre_response env) (assigned_to w)
                incident_sys_id of
           Inl e \<Rightarrow> (Failed e, [FetchHolder incident_sys_id (Inl e)], w)
         | Inr inc \<Rightarrow>
             (let ev1 = [FetchHolder incident_sys_id (Inr inc)]
              in if inc = [] then (IncidentNotFound, ev1, w)
                 else if held inc then (AlreadyAssigned, ev1, w)
                 else
                   (case gather_and_score max_candidates env body of
                      Inl out \<Rightarrow> (out, ev1, w)
                    | Inr (selected_member, score_snapshot) \<Rightarrow>
                        (let w1 =
                               (if rival env = [] then w
                                else w\<lparr>assigned_to :=
                                         (assigned_to w)(incident_sys_id := rival env)\<rparr>)
                         in case confirm_incident_unassigned (post_response env)
                                   (assigned_to w1) incident_sys_id of
                              Inl e \<Rightarrow>
                                (Failed e, ev1 @ [FetchHolder incident_sys_id (Inl e)], w1)
                            | Inr inc_latest \<Rightarrow>
                                (let ev2 = ev1 @ [FetchHolder incident_sys_id (Inr inc_latest)]
                                 in if held inc_latest
                                    then (AssignedDuringProcessing, ev2, w1)
                                    else
                                      (case processor_assign_incident_to_member (patch_ok env)
                                              w1 incident_sys_id selected_member of
                                         Inl e \<Rightarrow>
                                           (Failed e,
                                            ev2 @ [Commit incident_sys_id selected_member False],
                                            w1)
                                       | Inr w2 \<Rightarrow>
                                           (let ev3 = ev2 @
                                                  [Commit incident_sys_id selected_member True];
                                                algorithm_snapshot =
                                                  (score_snapshot, selected_member)
                                            in case record_assignment_history (insert_ok env) w2
                                                      incident_sys_id incident_number
                                                      selected_member algorithm_snapshot of
                                                 Inl e \<Rightarrow>
                                                   (Failed e,
                                                    ev3 @ [RecordDecision incident_sys_id
                                                             selected_member False],
                                                    w2)
                                               | Inr w3 \<Rightarrow>
                                                   (Assigned,
                                                    ev3 @ [RecordDecision incident_sys_id
                                                             selected_member True],
                                                    w3))))))))"

fun lambda_handler ::
  "nat \<Rightarrow> (work_item \<times> env) list \<Rightarrow> history_row world \<Rightarrow>
   outcome list \<times> event list \<times> history_row world" where
  \<comment> \<open>the loop over the records of the event, each with what the collaborators answer
      while it is processed\<close>
  "lambda_handler max_candidates [] w = ([], [], w)"
| "lambda_handler max_candidates ((body, env) # rest) w =
     (case process_record max_candidates env w body of
        (out, evs, w') \<Rightarrow>
          (case lambda_handler max_candidates rest w' of
             (outs, evs', w'') \<Rightarrow> (out # outs, evs @ evs', w'')))"

subsection \<open>The workflow variant (assignment_processor.py, database.py)\<close>

record sn_member =
  user_name :: string
  user_sys_id :: string

text \<open>
  The message of the queue: a dict, so every key may be missing (\<open>None\<close>).
\<close>

record incident_data =
  id_incident_number :: "string option"
  id_assignment_group :: "string option"
  id_priority :: "string option"
  id_severity :: "string option"

definition number_text :: "string option \<Rightarrow> string" where
  \<comment> \<open>the incident number as the f-string of the look-up renders it\<close>
  "number_text n = (case n of None \<Rightarrow> ''None'' | Some s \<Rightarrow> s)"

text \<open>
  What the collaborators answer while one message is processed: the processing log, the
  group members of the ticketing system, the member table, the clock (as the filter and
  as the calculator read it), the library's parsing and formatting, the user and
  workload look-ups, the look-up of the incident and the PUT of \<^verbatim>\<open>assign_incident\<close>,
  and the insert of the decision record.
\<close>

record services =
  log_processing_ok :: bool
  sn_group_members :: "exn + sn_member list"
  member_table :: "exn + MemberData list"
  filter_clock :: datetime
  score_clock :: datetime
  time_parser :: "string \<Rightarrow> time option"
  user_by_username :: "string \<Rightarrow> exn + string option"
  member_incidents :: "string \<Rightarrow> exn + incident list"
  incident_lookup :: "exn + string option"
  put_ok :: bool
  log_assignment_ok :: bool
  weights :: config
  fmt4 :: "real \<Rightarrow> string"

record weights_summary =
  total_members_evaluated :: nat
  weight_distribution :: "(string \<times> string \<times> real \<times> real \<times> real \<times> real) list"
  selected_member :: "string option"

record assignment_log =
  al_incident_number :: string
  al_assignment_group_id :: string
  al_assigned_member_id :: string
  al_assigned_member_name :: string
  al_incident_priority :: string
  al_incident_severity :: "string option"
  al_calculated_weights :: weights_summary
  al_workload_score :: real
  al_role_score :: real
  al_availability_score :: real
  al_final_weight :: real
  al_assignment_reason :: string

text \<open>
  An object of the ORM. \<^verbatim>\<open>get_session\<close> commits and closes the session when its
  \<^verbatim>\<open>with\<close> block is left; the session factory keeps the default
  \<^verbatim>\<open>expire_on_commit\<close>, so the commit expires every instance the query loaded and
  the close detaches it. The first read of an attribute of such an instance raises
  DetachedInstanceError.
\<close>

datatype 'a orm_instance = Persistent 'a | Detached 'a

fun read_attribute :: "('a \<Rightarrow> 'b) \<Rightarrow> 'a orm_instance \<Rightarrow> exn + 'b" where
  "read_attribute f (Persistent r) = Inr (f r)"
| "read_attribute f (Detached r) = Inl DetachedInstanceError"

definition get_members_by_group :: "services \<Rightarrow> exn + MemberData orm_instance list" where
  \<comment> \<open>the query keeps the active rows of the group; they are returned from inside the
      \<^verbatim>\<open>with\<close> block, so the caller receives them expired and detached\<close>
  "get_members_by_group sv =
     (case member_table sv of
        Inl e \<Rightarrow> Inl e
      | Inr rows \<Rightarrow> Inr (map Detached (filter is_active rows)))"

fun members_in_group ::
  "string set \<Rightarrow> MemberData orm_instance list \<Rightarrow> exn + MemberData list" where
  \<comment> \<open>the first loop of \<^verbatim>\<open>get_available_members\<close>: it reads
      \<^verbatim>\<open>db_member.member_id\<close>\<close>
  "members_in_group servicenow_member_ids [] = Inr []"
| "members_in_group servicenow_member_ids (db_member # rest) =
     (case read_attribute (\<lambda>row. row) db_member of
        Inl e \<Rightarrow> Inl e
      | Inr row \<Rightarrow>
          (case members_in_group servicenow_member_ids rest of
             Inl e \<Rightarrow> Inl e
           | Inr available_members \<Rightarrow>
               Inr (if member_id row \<in> servicenow_member_ids
                    then row # available_members else available_members)))"

definition get_available_members ::
  "services \<Rightarrow> sn_member list \<Rightarrow> exn + MemberData list" where
  "get_available_members sv servicenow_members =
     (case get_members_by_group sv of
        Inl e \<Rightarrow> Inl e
      | Inr db_members \<Rightarrow>
          if db_members = [] then Inr []
          else
            (let servicenow_member_ids = set (map user_name servicenow_members)
             in case members_in_group servicenow_member_ids db_members of
                  Inl e \<Rightarrow> Inl e
                | Inr available_members \<Rightarrow>
                    Inr (filter_currently_available (time_parser sv) (score_clock sv)
                           (filter_clock sv) available_members)))"

definition member_workload :: "services \<Rightarrow> MemberData \<Rightarrow> incident list" where
  \<comment> \<open>one turn of the loop of \<^verbatim>\<open>get_member_workloads\<close>\<close>
  "member_workload sv member =
     (case user_by_username sv (member_id member) of
        Inl e \<Rightarrow> []
      | Inr None \<Rightarrow> []
      | Inr (Some sys_id) \<Rightarrow>
          (case member_incidents sv sys_id of
             Inl e \<Rightarrow> []
           | Inr incidents \<Rightarrow> incidents))"

definition get_member_workloads ::
  "services \<Rightarrow> MemberData list \<Rightarrow> (string \<rightharpoonup> incident list)" where
  "get_member_workloads sv available_members =
     foldl (\<lambda>member_workloads member.
              member_workloads(member_id member \<mapsto> member_workload sv member))
       Map.empty available_members"

definition find_servicenow_member :: "sn_member list \<Rightarrow> string \<Rightarrow> sn_member option" where
  "find_servicenow_member servicenow_members member_id' =
     find (\<lambda>member. user_name member = member_id') servicenow_members"

definition assign_incident_to_member ::
  "services \<Rightarrow> 'h world \<Rightarrow> string \<Rightarrow> string \<Rightarrow> bool \<times> event list \<times> 'h world" where
  \<comment> \<open>with \<^verbatim>\<open>ServiceNowClient.assign_incident\<close>: the look-up of the incident, then the
      PUT that writes \<^verbatim>\<open>assigned_to\<close>\<close>
  "assign_incident_to_member sv w incident_number member_sys_id' =
     (case incident_lookup sv of
        Inl e \<Rightarrow> (False, [], w)
      | Inr None \<Rightarrow> (False, [], w)
      | Inr (Some incident_sys_id) \<Rightarrow>
          if put_ok sv
          then (True, [Commit incident_number member_sys_id' True],
                w\<lparr>assigned_to := (assigned_to w)(incident_number := member_sys_id')\<rparr>)
          else (False, [Commit incident_number member_sys_id' False], w))"

definition get_weights_summary :: "MemberWeight list \<Rightarrow> weights_summary" where
  \<comment> \<open>without its timestamp\<close>
  "get_weights_summary member_weights =
     \<lparr>total_members_evaluated = length member_weights,
      weight_distribution =
        map (\<lambda>weight. (mw_member_id weight, mw_member_name weight, final_weight weight,
                        workload_score weight, role_score weight, availability_score weight))
          member_weights,
      selected_member =
        (case member_weights of [] \<Rightarrow> None | first # _ \<Rightarrow> Some (mw_member_id first))\<rparr>"

definition create_assignment_log_entry ::
  "incident_data \<Rightarrow> MemberWeight \<Rightarrow> weights_summary \<Rightarrow> string \<Rightarrow> exn + assignment_log" where
  \<comment> \<open>\<^verbatim>\<open>incident_data['incident_number']\<close>, \<^verbatim>\<open>['assignment_group']\<close> and
      \<^verbatim>\<open>['priority']\<close> raise KeyError on a missing key\<close>
  "create_assignment_log_entry data selected weight_details assignment_reason =
     (case id_incident_number data of
        None \<Rightarrow> Inl KeyError
      | Some number \<Rightarrow>
          (case id_assignment_group data of
             None \<Rightarrow> Inl KeyError
           | Some group_id \<Rightarrow>
               (case id_priority data of
                  None \<Rightarrow> Inl KeyError
                | Some priority' \<Rightarrow>
                    Inr \<lparr>al_incident_number = number,
                         al_assignment_group_id = group_id,
                         al_assigned_member_id = mw_member_id selected,
                         al_assigned_member_name = mw_member_name selected,
                         al_incident_priority = priority',
                         al_incident_severity = id_severity data,
                         al_calculated_weights = weight_details,
                         al_workload_score = workload_score selected,
                         al_role_score = role_score selected,
                         al_availability_score = availability_score selected,
                         al_final_weight = final_weight selected,
                         al_assignment_reason = assignment_reason\<rparr>)))"

definition log_assignment_decision ::
  "services \<Rightarrow> assignment_log world \<Rightarrow> incident_data \<Rightarrow> MemberWeight \<Rightarrow>
   MemberWeight list \<Rightarrow> string \<Rightarrow> exn + (event list \<times> assignment_log world)" where
  \<comment> \<open>a DatabaseError of the insert is logged and swallowed; the KeyError of the log
      entry is not caught here\<close>
  "log_assignment_decision sv w data selected member_weights assignment_reason =
     (let weight_summary = get_weights_summary member_weights
      in case create_assignment_log_entry data selected weight_summary assignment_reason of
           Inl e \<Rightarrow> Inl e
         | Inr assignment_log' \<Rightarrow>
             if log_assignment_ok sv
             then Inr ([RecordDecision (al_incident_number assignment_log')
                          (mw_member_id selected) True],
                       w\<lparr>history := history w @ [assignment_log']\<rparr>)
             else Inr ([RecordDecision (al_incident_number assignment_log')
                          (mw_member_id selected) False], w))"

definition process_incident_assignment ::
  "services \<Rightarrow> assignment_log world \<Rightarrow> incident_data \<Rightarrow>
   (exn + bool) \<times> event list \<times> assignment_log world" where
  \<comment> \<open>every handler of the \<^verbatim>\<open>try\<close> writes the processing log and returns False; when
      the processing log itself fails, its DatabaseError leaves the function\<close>
  "process_incident_assignment sv w data =
     (let incident_number = number_text (id_incident_number data)
      in if \<not> log_processing_ok sv then (Inl DatabaseError, [], w)
         else
           (case sn_group_members sv of
              Inl e \<Rightarrow> (Inr False, [], w)
            | Inr servicenow_members \<Rightarrow>
                if servicenow_members = [] then (Inr False, [], w)
                else
                  (case get_available_members sv servicenow_members of
                     Inl e \<Rightarrow> (Inr False, [], w)
                   | Inr available_members \<Rightarrow>
                       if available_members = [] then (Inr False, [], w)
                       else
                         (let member_workloads = get_member_workloads sv available_members
                          in case calculate_member_weights (weights sv) (time_parser sv)
                                    (score_clock sv) available_members member_workloads
                                    (case id_priority data of None \<Rightarrow> ''4'' | Some p \<Rightarrow> p) of
                               Inl e \<Rightarrow> (Inr False, [], w)
                             | Inr member_weights \<Rightarrow>
                                 (case select_best_member (fmt4 sv) member_weights of
                                    Inl e \<Rightarrow> (Inr False, [], w)
                                  | Inr (selected, assignment_reason) \<Rightarrow>
                                      (case find_servicenow_member servicenow_members
                                              (mw_member_id selected) of
                                         None \<Rightarrow> (Inr False, [], w)
                                       | Some servicenow_member \<Rightarrow>
                                           (case assign_incident_to_member sv w incident_number
                                                   (user_sys_id servicenow_member) of
                                              (assignment_success, evs, w1) \<Rightarrow>
                                                if assignment_success
                                                then
                                                  (case log_assignment_decision sv w1 data
                                                          selected member_weights
                                                          assignment_reason of
                                                     Inl e \<Rightarrow> (Inr False, evs, w1)
                                                   | Inr (evs', w2) \<Rightarrow>
                                                       (Inr True, evs @ evs', w2))
                                                else (Inr False, evs, w1))))))))"

subsection \<open>Example roster\<close>

definition alice :: MemberData where
  "alice = \<lparr>member_id = ''alice'', member_name = ''Alice'', role = ''L2'',
     experience_level = Some 3, shift_start = ''09:00'', shift_end = ''17:00'',
     weekend_shift_flag = True, is_active = True\<rparr>"

definition bob :: MemberData where
  "bob = \<lparr>member_id = ''bob'', member_name = ''Bob'', role = ''L1'',
     experience_level = None, shift_start = ''09:00'', shift_end = ''17:00'',
     weekend_shift_flag = True, is_active = True\<rparr>"

definition carol :: MemberData where
  "carol = \<lparr>member_id = ''carol'', member_name = ''Carol'', role = ''L3'',
     experience_level = Some 10, shift_start = ''9am'', shift_end = ''17:00'',
     weekend_shift_flag = False, is_active = True\<rparr>"

definition wednesday :: "time \<Rightarrow> datetime" where
  "wednesday t = \<lparr>weekday = 2, time_of = t\<rparr>"

definition dave :: member_dict where
  "dave = [(''member_id'', PyStr ''dave''), (''weekend_shift_flag'', PyBool False)]"

subsection \<open>Example runs\<close>

definition fresh_world :: "'h world" where
  "fresh_world = \<lparr>assigned_to = (\<lambda>i. []), history = []\<rparr>"

definition held_world :: "'h world" where
  "held_world = \<lparr>assigned_to = (\<lambda>i. if i = ''s1'' then ''u9'' else []), history = []\<rparr>"

definition row1 :: member_row where
  "row1 = \<lparr>member_sys_id = ''u1'', row_member_name = Some ''Ann'', row_role = Some ''L2'',
     weight_modifier = None, shift_days = Some ''Mon,Tue,Wed,Thu,Fri'',
     row_weekend_shift_flag = False, shift_start_time = Some (Timedelta 32400),
     shift_end_time = Some (Timedelta 61200)\<rparr>"

definition row2 :: member_row where
  "row2 = \<lparr>member_sys_id = ''u2'', row_member_name = Some ''Ben'', row_role = Some ''L2'',
     weight_modifier = None, shift_days = Some ''Mon,Tue,Wed,Thu,Fri'',
     row_weekend_shift_flag = False, shift_start_time = Some (Timedelta 32400),
     shift_end_time = Some (Timedelta 61200)\<rparr>"

definition jitter_a :: "nat \<Rightarrow> real" where
  "jitter_a i = (if i = 0 then 0 else 0.005)"

definition jitter_b :: "nat \<Rightarrow> real" where
  "jitter_b i = (if i = 0 then 0.005 else 0)"

definition quiet_env :: env where
  "quiet_env = \<lparr>pre_response = Result, group_members = Inr [''u1'', ''u2''],
     member_query = Inr [row1, row2], parse_dt = (\<lambda>s. None),
     utcnow = wednesday (hm 12 0), assigned_incidents = (\<lambda>m. Inr []),
     recent_assignments = (\<lambda>m. Inr 0), parse_ts = (\<lambda>s. None), now_ts = 0,
     jitter = jitter_a, rival = [], post_response = Result, patch_ok = True,
     insert_ok = True\<rparr>"

definition item1 :: work_item where
  "item1 = \<lparr>wi_sys_id = ''s1'', wi_number = ''INC1'', wi_assignment_group_sys_id = ''g1'',
     wi_opened_at = None\<rparr>"

definition committed_world :: "history_row world" where
  "committed_world =
     \<lparr>assigned_to = (\<lambda>i. if i = ''s1'' then ''u1'' else []), history = []\<rparr>"

definition demo_services :: services where
  "demo_services = \<lparr>log_processing_ok = True,
     sn_group_members = Inr [\<lparr>user_name = ''alice'', user_sys_id = ''u1''\<rparr>],
     member_table = Inr [alice], filter_clock = wednesday (hm 12 0),
     score_clock = wednesday (hm 12 0), time_parser = fromisoformat_hhmm,
     user_by_username = (\<lambda>u. Inr (Some ''u1'')), member_incidents = (\<lambda>s. Inr []),
     incident_lookup = Inr (Some ''s1''), put_ok = True, log_assignment_ok = True,
     weights = default_config, fmt4 = (\<lambda>x. [])\<rparr>"

definition demo_incident :: incident_data where
  "demo_incident = \<lparr>id_incident_number = Some ''INC1'', id_assignment_group = Some ''g1'',
     id_priority = Some ''2'', id_severity = None\<rparr>"

definition workflow_run :: "(exn + bool) \<times> event list \<times> assignment_log world" where
  "workflow_run = process_incident_assignment demo_services fresh_world demo_incident"

definition worker_held_run :: "outcome \<times> event list \<times> history_row world" where
  "worker_held_run = process_record 50 quiet_env held_world item1"

definition worker_redelivery_run :: "outcome \<times> event list \<times> history_row world" where
  "worker_redelivery_run = process_record 50 quiet_env committed_world item1"

definition worker_unreachable_run :: "outcome \<times> event list \<times> history_row world" where
  "worker_unreachable_run =
     process_record 50 (quiet_env\<lparr>pre_response := Raises\<rparr>) committed_world item1"

definition worker_fresh_run :: "outcome \<times> event list \<times> history_row world" where
  "worker_fresh_run = process_record 50 quiet_env fresh_world item1"

section \<open>Properties\<close>

subsection \<open>Helper lemmas\<close>

lemma time_le_total: "\<not> time_le a b \<longleftrightarrow> time_lt b a"
  unfolding time_le_def time_lt_def by auto

lemma foldl_weight_shift:
  "foldl (\<lambda>acc i. acc + incident_weight i) a xs = a + sum_list (map incident_weight xs)"
  by (induction xs arbitrary: a) simp_all

lemma weighted_count_sum: "weighted_count xs = sum_list (map incident_weight xs)"
  unfolding weighted_count_def by (simp add: foldl_weight_shift)

lemma incident_weight_pos: "0 < incident_weight i"
  unfolding incident_weight_def dict_get_def PRIORITY_WEIGHTS_def Let_def
  by (simp split: option.splits)

lemma weighted_count_nonneg: "0 \<le> weighted_count xs"
  unfolding weighted_count_sum
  by (induction xs) (simp_all add: incident_weight_pos less_imp_le add_nonneg_nonneg)

lemma workload_score_formula:
  "calculate_workload_score xs = 1 / (1 + 0.5 * weighted_count xs)"
  unfolding calculate_workload_score_def
  by (cases xs) (simp_all add: weighted_count_def mult.commute)

lemmas example_defs = alice_def bob_def carol_def wednesday_def dave_def

lemmas eval_defs = digit_of_def time_le_def time_lt_def hm_def is_time_in_shift_def
  shift_distances_def shift_min_distance_def calculate_shift_proximity_def
  calculate_availability_score_def is_member_currently_available_def Let_def
  dict_get_def upper_def upper_char_def calculate_role_score_def ROLE_MULTIPLIERS_def
  PRIORITY_WEIGHTS_def calculate_workload_score_def workloads_get_def score_member_def
  calculate_member_weights_def sort_descending_def default_config_def
  invalid_shift_warning_def

lemma collect_weights_filter:
  "collect_weights f ms = map projr (filter (\<lambda>r. \<not> isl r) (map f ms))"
  by (induction ms) (auto split: sum.splits)

lemma collect_weights_empty:
  "collect_weights f ms = [] \<longleftrightarrow> (\<forall>m\<in>set ms. isl (f m))"
  by (induction ms) (auto split: sum.splits)

lemma collect_weights_member:
  "m \<in> set ms \<Longrightarrow> f m = Inr w \<Longrightarrow> w \<in> set (collect_weights f ms)"
  by (induction ms) (auto split: sum.splits)

lemma sort_descending_mset: "mset (sort_descending ws) = mset ws"
  by (simp add: sort_descending_def)

lemma sort_descending_sorted:
  "sorted_wrt (\<lambda>a b. final_weight b \<le> final_weight a) (sort_descending ws)"
proof -
  have "sorted (map (\<lambda>x. - final_weight x) (sort_key (\<lambda>x. - final_weight x) ws))"
    by (rule sorted_sort_key)
  then show ?thesis
    by (simp add: sort_descending_def sorted_map)
qed

lemma sort_descending_stable:
  "filter (\<lambda>w. final_weight w = k) (sort_descending ws) = filter (\<lambda>w. final_weight w = k) ws"
proof -
  have "filter (\<lambda>w. - final_weight w = - k) (sort_key (\<lambda>x. - final_weight x) ws)
        = filter (\<lambda>w. - final_weight w = - k) ws"
    by (rule sort_key_stable)
  then show ?thesis by (simp add: sort_descending_def)
qed

lemma sort_key_hd_first_min:
  "xs \<noteq> [] \<Longrightarrow> \<exists>pre post. xs = pre @ hd (sort_key f xs) # post \<and>
     (\<forall>x\<in>set pre. f (hd (sort_key f xs)) < f x) \<and>
     (\<forall>x\<in>set post. f (hd (sort_key f xs)) \<le> f x)"
proof (induction xs)
  case Nil
  then show ?case by simp
next
  case (Cons a xs)
  show ?case
  proof (cases "xs = []")
    case True
    then show ?thesis by (intro exI [of _ "[]"]) simp
  next
    case False
    from Cons.IH [OF False] obtain pre post where
      d: "xs = pre @ hd (sort_key f xs) # post"
      and p: "\<forall>x\<in>set pre. f (hd (sort_key f xs)) < f x"
      and q: "\<forall>x\<in>set post. f (hd (sort_key f xs)) \<le> f x" by blast
    obtain y ys where s: "sort_key f xs = y # ys" using False set_sort [of f xs]
      by (cases "sort_key f xs") auto
    show ?thesis
    proof (cases "f a \<le> f y")
      case True
      then have h: "hd (sort_key f (a # xs)) = a" using s by simp
      have "\<forall>x\<in>set xs. f a \<le> f x"
      proof
        fix x assume "x \<in> set xs"
        then have "x = y \<or> x \<in> set pre \<or> x \<in> set post" using d s
          by (metis Un_iff list.sel(1) set_ConsD set_append)
        then show "f a \<le> f x" using True p q s by fastforce
      qed
      then show ?thesis using h by (intro exI [of _ "[]"] exI [of _ xs]) simp
    next
      case False
      then have h: "hd (sort_key f (a # xs)) = y" using s by simp
      have "a # xs = (a # pre) @ y # post" using d s by simp
      moreover have "\<forall>x\<in>set (a # pre). f y < f x" using p s False by auto
      moreover have "\<forall>x\<in>set post. f y \<le> f x" using q s by simp
      ultimately show ?thesis unfolding h by blast
    qed
  qed
qed

lemma proximity_low_iff:
  "calculate_shift_proximity t s e < 0.3 \<longleftrightarrow> shift_min_distance t s e > 168"
proof -
  define d where "d = shift_min_distance t s e"
  have p: "calculate_shift_proximity t s e = max (1 / 10) (1 - real_of_int d / 240)"
    unfolding calculate_shift_proximity_def Let_def d_def by simp
  have "max (1 / 10) (1 - real_of_int d / 240) < 3 / 10 \<longleftrightarrow> 168 < real_of_int d"
    by (simp only: max_less_iff_conj) linarith
  also have "\<dots> \<longleftrightarrow> 168 < d" by linarith
  finally show ?thesis unfolding p unfolding d_def by simp
qed

lemma proximity_low_iff_scaled:
  "calculate_shift_proximity t s e * 10 < 3 \<longleftrightarrow> shift_min_distance t s e > 168"
  using proximity_low_iff [of t s e] by simp

lemma in_shift_inline:
  "(if time_le s e then time_le s t \<and> time_le t e else time_le s t \<or> time_le t e) =
   is_time_in_shift t s e"
  by (simp add: is_time_in_shift_def)

lemma filter_available_members_set:
  "d \<in> set (filter_available_members ds t) \<longleftrightarrow>
     d \<in> set ds \<and> truthy (dict_get d ''is_active'' (PyBool True)) \<and>
     \<not> (weekday t \<ge> 5 \<and> \<not> truthy (dict_get d ''weekend_shift_flag'' (PyBool False)))"
  by (induction ds) (auto simp: Let_def)

lemma filter_currently_available_set:
  "m \<in> set (filter_currently_available parse now t ms) \<longleftrightarrow>
     m \<in> set ms \<and> fst (is_member_currently_available parse now m t)"
  by (induction ms) auto

subsection \<open>C7: the shift window\<close>

text \<open>
  C7. For every shift (start, end) and every time of day t: when start \<open>\<le>\<close> end the
  candidate is on duty at t iff start \<open>\<le>\<close> t \<open>\<le>\<close> end; when start \<open>>\<close> end (an
  overnight shift) the candidate is on duty at t iff t \<open>\<ge>\<close> start or t \<open>\<le>\<close> end.
\<close>

theorem is_time_in_shift_window:
  "(time_le s e \<longrightarrow> (is_time_in_shift t s e \<longleftrightarrow> time_le s t \<and> time_le t e)) \<and>
   (time_lt e s \<longrightarrow> (is_time_in_shift t s e \<longleftrightarrow> time_le s t \<or> time_le t e))"
  unfolding is_time_in_shift_def using time_le_total [of s e] by auto

theorem is_time_in_shift_window_witness:
  "time_le (hm 9 0) (hm 17 0) \<and> is_time_in_shift (hm 12 30) (hm 9 0) (hm 17 0) \<and>
   time_le (hm 9 0) (hm 12 30) \<and> time_le (hm 12 30) (hm 17 0) \<and>
   time_lt (hm 6 0) (hm 22 0) \<and> is_time_in_shift (hm 23 30) (hm 22 0) (hm 6 0) \<and>
   time_le (hm 22 0) (hm 23 30) \<and> \<not> time_le (hm 23 30) (hm 6 0)"
proof -
  have a: "time_le (hm 9 0) (hm 17 0)" by (simp add: time_le_def hm_def)
  have b: "time_lt (hm 6 0) (hm 22 0)" by (simp add: time_lt_def hm_def)
  have c: "time_le (hm 9 0) (hm 12 30) \<and> time_le (hm 12 30) (hm 17 0)"
    by (simp add: time_le_def hm_def)
  have d: "time_le (hm 22 0) (hm 23 30) \<and> \<not> time_le (hm 23 30) (hm 6 0)"
    by (simp add: time_le_def hm_def)
  from is_time_in_shift_window [of "hm 9 0" "hm 17 0" "hm 12 30"] a c
  have e: "is_time_in_shift (hm 12 30) (hm 9 0) (hm 17 0)" by blast
  from is_time_in_shift_window [of "hm 22 0" "hm 6 0" "hm 23 30"] b d
  have f: "is_time_in_shift (hm 23 30) (hm 22 0) (hm 6 0)" by blast
  from a b c d e f show ?thesis by blast
qed

subsection \<open>C6: the workload score\<close>

text \<open>
  C6. An empty open-item list scores exactly 1.0; otherwise the score is
  1 / (1 + 0.5 * weighted), where weighted is the sum over the open items of their
  entries in the priority-weight table (1.0 for a priority the table does not have).
  The score lies in (0, 1] and is strictly decreasing in the weighted sum.
\<close>

theorem workload_score_properties:
  "calculate_workload_score [] = 1 \<and>
   (xs \<noteq> [] \<longrightarrow>
      calculate_workload_score xs = 1 / (1 + 0.5 * sum_list (map incident_weight xs))) \<and>
   weighted_count xs = sum_list (map incident_weight xs) \<and>
   0 < calculate_workload_score xs \<and> calculate_workload_score xs \<le> 1 \<and>
   (weighted_count xs < weighted_count ys \<longrightarrow>
      calculate_workload_score ys < calculate_workload_score xs)"
proof -
  have nx: "0 \<le> weighted_count xs" and ny: "0 \<le> weighted_count ys"
    by (rule weighted_count_nonneg)+
  have f: "\<And>zs. calculate_workload_score zs = 1 / (1 + 0.5 * weighted_count zs)"
    by (rule workload_score_formula)
  have c1: "calculate_workload_score [] = 1"
    by (simp add: calculate_workload_score_def)
  have c2: "xs \<noteq> [] \<longrightarrow>
      calculate_workload_score xs = 1 / (1 + 0.5 * sum_list (map incident_weight xs))"
    using f [of xs] by (simp add: weighted_count_sum)
  have c3: "0 < calculate_workload_score xs" using nx by (simp add: f)
  have c4: "calculate_workload_score xs \<le> 1" using nx by (simp add: f)
  have c5: "weighted_count xs < weighted_count ys \<longrightarrow>
      calculate_workload_score ys < calculate_workload_score xs"
  proof
    assume lt: "weighted_count xs < weighted_count ys"
    have "1 + 0.5 * weighted_count xs < 1 + 0.5 * weighted_count ys" using lt by simp
    moreover have "0 < 1 + 0.5 * weighted_count xs" using nx by simp
    ultimately have "1 / (1 + 0.5 * weighted_count ys) < 1 / (1 + 0.5 * weighted_count xs)"
      by (simp add: frac_less2)
    then show "calculate_workload_score ys < calculate_workload_score xs" by (simp add: f)
  qed
  from c1 c2 c3 c4 c5 show ?thesis by (simp add: weighted_count_sum)
qed

theorem workload_score_properties_witness:
  "weighted_count [[(''priority'', ''4'')]] < weighted_count [[(''priority'', ''1'')]] \<and>
   calculate_workload_score [[(''priority'', ''1'')]] = 2 / 7 \<and>
   calculate_workload_score [[(''priority'', ''4'')]] = 2 / 3 \<and>
   calculate_workload_score [[(''priority'', ''1'')]] <
     calculate_workload_score [[(''priority'', ''4'')]]"
proof -
  have h: "weighted_count [[(''priority'', ''4'')]] < weighted_count [[(''priority'', ''1'')]]"
    by (simp add: weighted_count_def incident_weight_def dict_get_def PRIORITY_WEIGHTS_def)
  have n: "[[(''priority'', ''1'')]] \<noteq> ([] :: incident list)"
    "[[(''priority'', ''4'')]] \<noteq> ([] :: incident list)" by simp_all
  from workload_score_properties [of "[[(''priority'', ''1'')]]" "[[(''priority'', ''4'')]]"] n
  have a: "calculate_workload_score [[(''priority'', ''1'')]] = 2 / 7"
    by (simp add: incident_weight_def dict_get_def PRIORITY_WEIGHTS_def)
  from workload_score_properties [of "[[(''priority'', ''4'')]]" "[[(''priority'', ''1'')]]"] n h
  have b: "calculate_workload_score [[(''priority'', ''4'')]] = 2 / 3"
    and c: "calculate_workload_score [[(''priority'', ''1'')]] <
     calculate_workload_score [[(''priority'', ''4'')]]"
    by (simp_all add: incident_weight_def dict_get_def PRIORITY_WEIGHTS_def)
  from h a b c show ?thesis by (intro conjI)
qed

subsection \<open>C8: the overnight shift scenario\<close>

text \<open>
  C8, as the code has it. For the shift 22:00 to 06:00 the candidate is on duty at 23:30
  and off duty at 12:00. At 12:00 the wraparound normalisation moves the end to minute
  1800 and the current time to minute 2160, so the distance to the start (22:00) is 840
  minutes and the distance to the end (06:00) is 360 minutes: the nearer boundary is
  06:00, at 360 minutes, and the availability score is the floor 0.1.
\<close>

theorem overnight_shift_scenario:
  "is_time_in_shift (hm 23 30) (hm 22 0) (hm 6 0) \<and>
   \<not> is_time_in_shift (hm 12 0) (hm 22 0) (hm 6 0) \<and>
   shift_distances (hm 12 0) (hm 22 0) (hm 6 0) = (840, 360) \<and>
   shift_min_distance (hm 12 0) (hm 22 0) (hm 6 0) = 360 \<and>
   calculate_shift_proximity (hm 12 0) (hm 22 0) (hm 6 0) = 0.1 \<and>
   calculate_availability_score fromisoformat_hhmm (wednesday (hm 12 0))
     (alice\<lparr>shift_start := ''22:00'', shift_end := ''06:00''\<rparr>) = (0.1, [])"
  by (simp add: example_defs eval_defs)

text \<open>
  The distance the code measures in the scenario of C8 is not 600 minutes.
\<close>

theorem overnight_distance_counterexample:
  "shift_min_distance (hm 12 0) (hm 22 0) (hm 6 0) \<noteq> 600 \<and>
   fst (shift_distances (hm 12 0) (hm 22 0) (hm 6 0)) \<noteq> 600"
  by (simp add: eval_defs)

subsection \<open>C10: skipping members whose scoring raises\<close>

text \<open>
  C10. \<^verbatim>\<open>calculate_member_weights\<close> skips a member whose score computation raises.
  It raises WeightCalculationError iff the member list is empty or every member's
  computation raised, and raises nothing else; otherwise it returns exactly the members
  scored with success, sorted by final weight, highest first.
\<close>

theorem calculate_member_weights_result:
  "(calculate_member_weights cfg parse now ms wl prio = Inl WeightCalculationError \<longleftrightarrow>
      ms = [] \<or> (\<forall>m\<in>set ms. isl (score_member cfg parse now wl prio m))) \<and>
   (\<forall>e. calculate_member_weights cfg parse now ms wl prio = Inl e \<longrightarrow>
      e = WeightCalculationError) \<and>
   (\<forall>ws. calculate_member_weights cfg parse now ms wl prio = Inr ws \<longrightarrow>
      mset ws = mset (map projr (filter (\<lambda>r. \<not> isl r)
                   (map (score_member cfg parse now wl prio) ms))) \<and>
      sorted_wrt (\<lambda>a b. final_weight b \<le> final_weight a) ws)"
  unfolding calculate_member_weights_def Let_def
  by (auto simp: collect_weights_empty collect_weights_filter [symmetric]
        sort_descending_mset sort_descending_sorted)

theorem calculate_member_weights_result_witness:
  "isl (score_member default_config fromisoformat_hhmm
       (wednesday (hm 12 0)) Map.empty ''2'' bob) \<and>
   calculate_member_weights default_config fromisoformat_hhmm (wednesday (hm 12 0))
     [bob] Map.empty ''2'' = Inl WeightCalculationError \<and>
   (\<exists>ws. calculate_member_weights default_config fromisoformat_hhmm (wednesday (hm 12 0))
       [bob, alice, carol] Map.empty ''2'' = Inr ws \<and>
       map mw_member_id ws = [''carol'', ''alice''] \<and>
       sorted_wrt (\<lambda>a b. final_weight b \<le> final_weight a) ws)"
proof -
  have h: "\<forall>m\<in>set [bob]. isl (score_member default_config fromisoformat_hhmm
       (wednesday (hm 12 0)) Map.empty ''2'' m)"
    by (simp add: example_defs eval_defs)
  from calculate_member_weights_result [of default_config fromisoformat_hhmm
      "wednesday (hm 12 0)" "[bob]" Map.empty "''2''"] h
  have a: "calculate_member_weights default_config fromisoformat_hhmm (wednesday (hm 12 0))
     [bob] Map.empty ''2'' = Inl WeightCalculationError" by blast
  have "\<exists>ws. calculate_member_weights default_config fromisoformat_hhmm (wednesday (hm 12 0))
       [bob, alice, carol] Map.empty ''2'' = Inr ws \<and>
       map mw_member_id ws = [''carol'', ''alice'']"
    by (simp add: example_defs eval_defs)
  then obtain ws where
    r: "calculate_member_weights default_config fromisoformat_hhmm (wednesday (hm 12 0))
       [bob, alice, carol] Map.empty ''2'' = Inr ws"
    and n: "map mw_member_id ws = [''carol'', ''alice'']" by auto
  from calculate_member_weights_result [of default_config fromisoformat_hhmm
      "wednesday (hm 12 0)" "[bob, alice, carol]" Map.empty "''2''"] r
  have "sorted_wrt (\<lambda>a b. final_weight b \<le> final_weight a) ws" by blast
  moreover have "isl (score_member default_config fromisoformat_hhmm
       (wednesday (hm 12 0)) Map.empty ''2'' bob)" using h by simp
  ultimately show ?thesis using a r n by (intro conjI exI [of _ ws])
qed

subsection \<open>C9: malformed shift strings\<close>

text \<open>
  C9. For a candidate whose shift start or end string does not parse and whom the weekend
  rule does not exclude: the availability score is exactly 0.5 and a warning is logged;
  the availability filter keeps the candidate, with a warning; the candidate's scoring
  does not raise because of it, and the batch returns a list that holds the candidate
  with availability 0.5.
\<close>

theorem malformed_shift_fail_open:
  assumes bad: "parse (shift_start m) = None \<or> parse (shift_end m) = None"
    and wk: "\<not> (weekday now \<ge> 5 \<and> \<not> weekend_shift_flag m)"
    and wk2: "\<not> (weekday current_time \<ge> 5 \<and> \<not> weekend_shift_flag m)"
  shows "calculate_availability_score parse now m = (0.5, [invalid_shift_warning m]) \<and>
     is_member_currently_available parse now m current_time =
       (True, [invalid_shift_warning m]) \<and>
     (m \<in> set ms \<longrightarrow> m \<in> set (filter_currently_available parse now current_time ms)) \<and>
     (experience_level m \<noteq> None \<longrightarrow>
        (\<exists>w. score_member cfg parse now wl prio m = Inr w \<and> availability_score w = 0.5 \<and>
             mw_member_id w = member_id m)) \<and>
     (m \<in> set ms \<and> experience_level m \<noteq> None \<longrightarrow>
        (\<exists>ws. calculate_member_weights cfg parse now ms wl prio = Inr ws \<and>
           (\<exists>w\<in>set ws. mw_member_id w = member_id m \<and> availability_score w = 0.5)))"
proof -
  have a: "calculate_availability_score parse now m = (0.5, [invalid_shift_warning m])"
    using bad wk by (auto simp: calculate_availability_score_def Let_def split: option.splits)
  have b: "is_member_currently_available parse now m current_time =
      (True, [invalid_shift_warning m])"
    using bad wk2
    by (auto simp: is_member_currently_available_def Let_def split: option.splits)
  have c: "m \<in> set ms \<longrightarrow> m \<in> set (filter_currently_available parse now current_time ms)"
    using b by (simp add: filter_currently_available_set)
  have d: "experience_level m \<noteq> None \<longrightarrow>
        (\<exists>w. score_member cfg parse now wl prio m = Inr w \<and> availability_score w = 0.5 \<and>
             mw_member_id w = member_id m)"
    using a by (auto simp: score_member_def calculate_role_score_def Let_def)
  have e: "m \<in> set ms \<and> experience_level m \<noteq> None \<longrightarrow>
        (\<exists>ws. calculate_member_weights cfg parse now ms wl prio = Inr ws \<and>
           (\<exists>w\<in>set ws. mw_member_id w = member_id m \<and> availability_score w = 0.5))"
  proof
    assume h: "m \<in> set ms \<and> experience_level m \<noteq> None"
    with d obtain w where w: "score_member cfg parse now wl prio m = Inr w"
      "availability_score w = 0.5" "mw_member_id w = member_id m" by blast
    have "w \<in> set (collect_weights (score_member cfg parse now wl prio) ms)"
      using h w(1) by (metis collect_weights_member)
    then have "w \<in> set (sort_descending
          (collect_weights (score_member cfg parse now wl prio) ms))"
      and "collect_weights (score_member cfg parse now wl prio) ms \<noteq> []"
      and "ms \<noteq> []" using h
      by (auto simp: sort_descending_def)
    then show "\<exists>ws. calculate_member_weights cfg parse now ms wl prio = Inr ws \<and>
           (\<exists>w\<in>set ws. mw_member_id w = member_id m \<and> availability_score w = 0.5)"
      using w by (auto simp: calculate_member_weights_def Let_def)
  qed
  from a b c d e show ?thesis by blast
qed

theorem malformed_shift_fail_open_witness:
  "(fromisoformat_hhmm (shift_start carol) = None \<or>
    fromisoformat_hhmm (shift_end carol) = None) \<and>
   \<not> (weekday (wednesday (hm 12 0)) \<ge> 5 \<and> \<not> weekend_shift_flag carol) \<and>
   calculate_availability_score fromisoformat_hhmm (wednesday (hm 12 0)) carol =
     (0.5, [LogWarning ''Invalid shift time format for member carol'']) \<and>
   is_member_currently_available fromisoformat_hhmm (wednesday (hm 12 0)) carol
     (wednesday (hm 12 0)) =
     (True, [LogWarning ''Invalid shift time format for member carol'']) \<and>
   carol \<in> set (filter_currently_available fromisoformat_hhmm (wednesday (hm 12 0))
     (wednesday (hm 12 0)) [alice, carol]) \<and>
   (\<exists>ws. calculate_member_weights default_config fromisoformat_hhmm (wednesday (hm 12 0))
       [alice, carol] Map.empty ''2'' = Inr ws \<and>
       (\<exists>w\<in>set ws. mw_member_id w = ''carol'' \<and> availability_score w = 0.5))"
proof -
  have bad: "fromisoformat_hhmm (shift_start carol) = None \<or>
    fromisoformat_hhmm (shift_end carol) = None"
    by (simp add: carol_def)
  have wk: "\<not> (weekday (wednesday (hm 12 0)) \<ge> 5 \<and> \<not> weekend_shift_flag carol)"
    by (simp add: wednesday_def)
  have mem: "carol \<in> set [alice, carol] \<and> experience_level carol \<noteq> None"
    by (simp add: carol_def)
  have w: "invalid_shift_warning carol =
      LogWarning ''Invalid shift time format for member carol''"
    by (simp add: invalid_shift_warning_def carol_def)
  have i: "member_id carol = ''carol''" by (simp add: carol_def)
  from malformed_shift_fail_open [OF bad wk wk, of "[alice, carol]" default_config
      Map.empty "''2''"] mem bad wk
  show ?thesis unfolding w i by blast
qed

subsection \<open>C4: who is removed from consideration\<close>

text \<open>
  C4, as the code has it, with one evaluation instant. \<^verbatim>\<open>is_member_currently_available\<close>
  removes a candidate iff the instant is on a weekend day and the weekend flag is false,
  or both shift strings parse, the candidate is off duty and the proximity score of
  \<^verbatim>\<open>_calculate_shift_proximity\<close> is below 0.3. That score is below 0.3 iff the
  smaller of the two distances the function computes, after its own wraparound
  normalisation, exceeds 168 minutes; this number is not always the distance on the clock
  to the nearer shift boundary. An off-duty candidate whose score is at least 0.3 stays.
  \<^verbatim>\<open>filter_available_members\<close> keeps a member iff it is active and not
  weekend-ineligible on a weekend day.
\<close>

theorem availability_filter_rule:
  "(\<not> fst (is_member_currently_available parse t m t) \<longleftrightarrow>
      (weekday t \<ge> 5 \<and> \<not> weekend_shift_flag m) \<or>
      (\<exists>s e. parse (shift_start m) = Some s \<and> parse (shift_end m) = Some e \<and>
             \<not> is_time_in_shift (time_of t) s e \<and>
             calculate_shift_proximity (time_of t) s e < 0.3)) \<and>
   (calculate_shift_proximity c s' e' < 0.3 \<longleftrightarrow> shift_min_distance c s' e' > 168) \<and>
   (d \<in> set (filter_available_members ds t) \<longleftrightarrow>
     d \<in> set ds \<and> truthy (dict_get d ''is_active'' (PyBool True)) \<and>
     \<not> (weekday t \<ge> 5 \<and> \<not> truthy (dict_get d ''weekend_shift_flag'' (PyBool False))))"
proof -
  have a: "\<not> fst (is_member_currently_available parse t m t) \<longleftrightarrow>
      (weekday t \<ge> 5 \<and> \<not> weekend_shift_flag m) \<or>
      (\<exists>s e. parse (shift_start m) = Some s \<and> parse (shift_end m) = Some e \<and>
             \<not> is_time_in_shift (time_of t) s e \<and>
             shift_min_distance (time_of t) s e > 168)"
    unfolding is_member_currently_available_def Let_def in_shift_inline
    by (auto simp: calculate_availability_score_def Let_def proximity_low_iff_scaled
          split: option.splits)
  have b: "\<not> fst (is_member_currently_available parse t m t) \<longleftrightarrow>
      (weekday t \<ge> 5 \<and> \<not> weekend_shift_flag m) \<or>
      (\<exists>s e. parse (shift_start m) = Some s \<and> parse (shift_end m) = Some e \<and>
             \<not> is_time_in_shift (time_of t) s e \<and>
             calculate_shift_proximity (time_of t) s e < 0.3)"
    unfolding a proximity_low_iff ..
  show ?thesis
    by (intro conjI b proximity_low_iff filter_available_members_set)
qed

theorem availability_filter_rule_witness:
  "fromisoformat_hhmm (shift_start alice) = Some (hm 9 0) \<and>
   fromisoformat_hhmm (shift_end alice) = Some (hm 17 0) \<and>
   \<not> is_time_in_shift (time_of (wednesday (hm 22 0))) (hm 9 0) (hm 17 0) \<and>
   shift_min_distance (time_of (wednesday (hm 22 0))) (hm 9 0) (hm 17 0) > 168 \<and>
   \<not> fst (is_member_currently_available fromisoformat_hhmm (wednesday (hm 22 0)) alice
      (wednesday (hm 22 0))) \<and>
   dave \<in> set (filter_available_members [dave] (wednesday (hm 22 0))) \<and>
   shift_min_distance (hm 21 0) (hm 22 0) (hm 6 0) = 900 \<and>
   calculate_shift_proximity (hm 21 0) (hm 22 0) (hm 6 0) < 0.3 \<and>
   \<not> fst (is_member_currently_available fromisoformat_hhmm (wednesday (hm 21 0))
      (alice\<lparr>shift_start := ''22:00'', shift_end := ''06:00''\<rparr>) (wednesday (hm 21 0)))"
proof -
  let ?night = "alice\<lparr>shift_start := ''22:00'', shift_end := ''06:00''\<rparr>"
  have p: "fromisoformat_hhmm (shift_start alice) = Some (hm 9 0) \<and>
      fromisoformat_hhmm (shift_end alice) = Some (hm 17 0)"
    by (simp add: alice_def digit_of_def)
  have q1: "\<not> is_time_in_shift (time_of (wednesday (hm 22 0))) (hm 9 0) (hm 17 0)"
    by (simp add: example_defs eval_defs)
  have q2: "shift_min_distance (time_of (wednesday (hm 22 0))) (hm 9 0) (hm 17 0) > 168"
    by (simp add: example_defs eval_defs)
  have r: "dave \<in> set [dave] \<and> truthy (dict_get dave ''is_active'' (PyBool True)) \<and>
     \<not> (weekday (wednesday (hm 22 0)) \<ge> 5 \<and>
        \<not> truthy (dict_get dave ''weekend_shift_flag'' (PyBool False)))"
    by (simp add: example_defs dict_get_def)
  note t = availability_filter_rule [of fromisoformat_hhmm "wednesday (hm 22 0)" alice
      "time_of (wednesday (hm 22 0))" "hm 9 0" "hm 17 0" dave "[dave]"]
  from t q2 have q3: "calculate_shift_proximity (time_of (wednesday (hm 22 0)))
      (hm 9 0) (hm 17 0) < 0.3" by blast
  from t p q1 q3 have a: "\<not> fst (is_member_currently_available fromisoformat_hhmm
      (wednesday (hm 22 0)) alice (wednesday (hm 22 0)))" by blast
  from t r have b: "dave \<in> set (filter_available_members [dave] (wednesday (hm 22 0)))"
    by blast
  have n1: "fromisoformat_hhmm (shift_start ?night) = Some (hm 22 0) \<and>
      fromisoformat_hhmm (shift_end ?night) = Some (hm 6 0)"
    by (simp add: alice_def digit_of_def)
  have n2: "\<not> is_time_in_shift (time_of (wednesday (hm 21 0))) (hm 22 0) (hm 6 0)"
    by (simp add: example_defs eval_defs)
  have n3: "shift_min_distance (hm 21 0) (hm 22 0) (hm 6 0) = 900"
    by (simp add: eval_defs)
  have n4: "time_of (wednesday (hm 21 0)) = hm 21 0" by (simp add: wednesday_def)
  note u = availability_filter_rule [of fromisoformat_hhmm "wednesday (hm 21 0)" ?night
      "hm 21 0" "hm 22 0" "hm 6 0" dave "[dave]"]
  from u n3 have n5: "calculate_shift_proximity (hm 21 0) (hm 22 0) (hm 6 0) < 0.3"
    by simp
  from u n1 n2 n5 n4 have c: "\<not> fst (is_member_currently_available fromisoformat_hhmm
      (wednesday (hm 21 0)) ?night (wednesday (hm 21 0)))" by metis
  from p have p1: "fromisoformat_hhmm (shift_start alice) = Some (hm 9 0)"
    and p2: "fromisoformat_hhmm (shift_end alice) = Some (hm 17 0)" by simp_all
  show ?thesis by (intro conjI p1 p2 q1 q2 a b n3 n5 c)
qed

text \<open>
  The claim C4 as stated fails: on a Wednesday at 22:00 a weekend-eligible candidate with
  the shift 09:00 to 17:00 is removed from the candidate list.
\<close>

theorem weekday_removal_counterexample:
  "\<not> (weekday (wednesday (hm 22 0)) \<ge> 5 \<and> \<not> weekend_shift_flag alice) \<and>
   filter_currently_available fromisoformat_hhmm (wednesday (hm 22 0))
     (wednesday (hm 22 0)) [alice] = [] \<and>
   is_member_currently_available fromisoformat_hhmm (wednesday (hm 22 0)) alice
     (wednesday (hm 22 0)) = (False, [])"
  by (simp add: example_defs eval_defs)

subsection \<open>Helper lemmas for the commit protocol and the rankers\<close>

lemmas run_defs = quiet_env_def item1_def fresh_world_def held_world_def committed_world_def
  row1_def row2_def jitter_a_def jitter_b_def demo_services_def demo_incident_def
  workflow_run_def worker_held_run_def worker_redelivery_run_def worker_unreachable_run_def
  worker_fresh_run_def

lemmas worker_defs = process_record_def gather_and_score_def processor_select_best_member_def
  confirm_incident_unassigned_def held_def incident_datetime_def fetch_member_rows_from_db_def
  row_in_shift_def day_abbr_def str_or_def compute_base_workload_def ROLE_MULT_def
  processor_assign_incident_to_member_def record_assignment_history_def

lemmas workflow_defs = process_incident_assignment_def get_available_members_def
  get_members_by_group_def get_member_workloads_def member_workload_def
  find_servicenow_member_def assign_incident_to_member_def log_assignment_decision_def
  select_best_member_def create_assignment_log_entry_def number_text_def

lemma held_Nil [simp]: "\<not> held []"
  by (simp add: held_def)

lemma gather_outcome:
  "gather_and_score mc env body = Inl out \<Longrightarrow>
     out = NoMembers \<or> out = NoAvailableMembers \<or> out = NoCandidate \<or> (\<exists>e. out = Failed e)"
  by (auto simp: gather_and_score_def Let_def
        split: sum.splits if_splits option.splits prod.splits)

lemma process_record_unfold:
  "process_record mc env w body =
     (case confirm_incident_unassigned (pre_response env) (assigned_to w) (wi_sys_id body) of
        Inl e \<Rightarrow> (Failed e, [FetchHolder (wi_sys_id body) (Inl e)], w)
      | Inr inc \<Rightarrow>
          if inc = [] then (IncidentNotFound, [FetchHolder (wi_sys_id body) (Inr inc)], w)
          else if held inc then (AlreadyAssigned, [FetchHolder (wi_sys_id body) (Inr inc)], w)
          else
            (case gather_and_score mc env body of
               Inl out \<Rightarrow> (out, [FetchHolder (wi_sys_id body) (Inr inc)], w)
             | Inr (sel, snap) \<Rightarrow>
                 (case confirm_incident_unassigned (post_response env)
                         (if rival env = [] then assigned_to w
                          else (assigned_to w)(wi_sys_id body := rival env))
                         (wi_sys_id body) of
                    Inl e \<Rightarrow>
                      (Failed e,
                       [FetchHolder (wi_sys_id body) (Inr inc),
                        FetchHolder (wi_sys_id body) (Inl e)],
                       (if rival env = [] then w
                        else w\<lparr>assigned_to := (assigned_to w)(wi_sys_id body := rival env)\<rparr>))
                  | Inr inc2 \<Rightarrow>
                      if held inc2
                      then (AssignedDuringProcessing,
                            [FetchHolder (wi_sys_id body) (Inr inc),
                             FetchHolder (wi_sys_id body) (Inr inc2)],
                            (if rival env = [] then w
                             else w\<lparr>assigned_to :=
                                      (assigned_to w)(wi_sys_id body := rival env)\<rparr>))
                      else if \<not> patch_ok env
                      then (Failed HTTPError,
                            [FetchHolder (wi_sys_id body) (Inr inc),
                             FetchHolder (wi_sys_id body) (Inr inc2),
                             Commit (wi_sys_id body) sel False],
                            (if rival env = [] then w
                             else w\<lparr>assigned_to :=
                                      (assigned_to w)(wi_sys_id body := rival env)\<rparr>))
                      else if \<not> insert_ok env
                      then (Failed MySQLError,
                            [FetchHolder (wi_sys_id body) (Inr inc),
                             FetchHolder (wi_sys_id body) (Inr inc2),
                             Commit (wi_sys_id body) sel True,
                             RecordDecision (wi_sys_id body) sel False],
                            w\<lparr>assigned_to := (assigned_to w)(wi_sys_id body := sel)\<rparr>)
                      else (Assigned,
                            [FetchHolder (wi_sys_id body) (Inr inc),
                             FetchHolder (wi_sys_id body) (Inr inc2),
                             Commit (wi_sys_id body) sel True,
                             RecordDecision (wi_sys_id body) sel True],
                            w\<lparr>assigned_to := (assigned_to w)(wi_sys_id body := sel),
                              history := history w @
                                [\<lparr>hr_incident_sys_id = wi_sys_id body,
                                  hr_incident_number = wi_number body,
                                  hr_assigned_to_member_sys_id = SqlNow,
                                  hr_assignment_timestamp = SqlParam sel,
                                  hr_algorithm_snapshot = (snap, sel),
                                  hr_success = True,
                                  hr_created_by = ''lambda_processor''\<rparr>]\<rparr>))))"
  unfolding process_record_def Let_def processor_assign_incident_to_member_def
    record_assignment_history_def
  by (auto split: sum.splits prod.splits)


lemma worker_record_rule:
  "process_record mc env w body = (out, evs, w') \<Longrightarrow>
     length (filter is_record evs) \<le> 1 \<and>
     ((\<forall>m. Commit (wi_sys_id body) m True \<notin> set evs) \<longrightarrow>
        filter is_record evs = [] \<and> history w' = history w) \<and>
     (out \<noteq> Assigned \<longrightarrow> history w' = history w)"
  unfolding process_record_unfold
  by (auto split: sum.splits prod.splits if_splits dest: gather_outcome)

lemma workflow_events:
  "process_incident_assignment sv w data = (r, evs, w') \<Longrightarrow>
     (evs = [] \<and> w' = w \<and> r \<noteq> Inr True) \<or>
     (\<exists>m. evs = [Commit (number_text (id_incident_number data)) m False] \<and> w' = w \<and>
          r = Inr False) \<or>
     (\<exists>m. evs = [Commit (number_text (id_incident_number data)) m True] \<and>
          history w' = history w \<and> r = Inr False) \<or>
     (\<exists>m i n. evs = [Commit (number_text (id_incident_number data)) m True,
                    RecordDecision i n False] \<and>
            history w' = history w \<and> r = Inr True) \<or>
     (\<exists>m i n row. evs = [Commit (number_text (id_incident_number data)) m True,
                    RecordDecision i n True] \<and>
            history w' = history w @ [row] \<and> r = Inr True)"
  unfolding process_incident_assignment_def Let_def assign_incident_to_member_def
    log_assignment_decision_def
  by (auto split: sum.splits prod.splits if_splits option.splits)

lemma workflow_record_rule:
  assumes "process_incident_assignment sv v data = (r, evs2, v')"
  shows "length (filter is_record evs2) \<le> 1 \<and>
     ((\<forall>m. Commit (number_text (id_incident_number data)) m True \<notin> set evs2) \<longrightarrow>
        filter is_record evs2 = [] \<and> history v' = history v)"
  using workflow_events [OF assms]
proof (elim disjE exE conjE)
  assume "evs2 = []" "v' = v"
  then show ?thesis by simp
next
  fix m assume "evs2 = [Commit (number_text (id_incident_number data)) m False]" "v' = v"
  then show ?thesis by simp
next
  fix m
  assume "evs2 = [Commit (number_text (id_incident_number data)) m True]"
    "history v' = history v"
  then show ?thesis by simp
next
  fix m i n
  assume "evs2 = [Commit (number_text (id_incident_number data)) m True,
                    RecordDecision i n False]"
    "history v' = history v"
  then show ?thesis by simp
next
  fix m i n row
  assume "evs2 = [Commit (number_text (id_incident_number data)) m True,
                    RecordDecision i n True]"
    "history v' = history v @ [row]"
  then show ?thesis by simp
qed

lemma workflow_fetches_no_holder:
  assumes "process_incident_assignment sv w data = (r, evs, w')"
  shows "\<forall>e\<in>set evs. \<forall>i x. e \<noteq> FetchHolder i x"
  using workflow_events [OF assms] by (elim disjE exE conjE) auto

lemma score_candidates_jitter:
  "score_candidates env i cs = Inr entries \<Longrightarrow>
     length entries = length cs \<and>
     (\<forall>j<length entries.
        se_member_sys_id (entries ! j) = member_sys_id (cs ! j) \<and>
        se_final_weight (entries ! j) =
          se_base_workload (entries ! j) * se_role_mult (entries ! j) *
            se_weight_mod (entries ! j) +
          0.1 * real (se_recent_count (entries ! j)) + jitter env (i + j))"
proof (induction cs arbitrary: i entries)
  case Nil
  then show ?case by simp
next
  case (Cons c cs)
  from Cons.prems obtain e rest where
    r: "score_candidates env (Suc i) cs = Inr rest" and en: "entries = e # rest"
    and e1: "se_member_sys_id e = member_sys_id c"
    and e2: "se_final_weight e = se_base_workload e * se_role_mult e * se_weight_mod e +
          0.1 * real (se_recent_count e) + jitter env i"
    by (auto simp: Let_def split: sum.splits)
  from Cons.IH [OF r] have ih: "length rest = length cs"
    "\<forall>j<length rest.
        se_member_sys_id (rest ! j) = member_sys_id (cs ! j) \<and>
        se_final_weight (rest ! j) =
          se_base_workload (rest ! j) * se_role_mult (rest ! j) * se_weight_mod (rest ! j) +
          0.1 * real (se_recent_count (rest ! j)) + jitter env (Suc i + j)" by auto
  show ?case unfolding en
  proof (intro conjI allI impI)
    show "length (e # rest) = length (c # cs)" using ih(1) by simp
  next
    fix j assume "j < length (e # rest)"
    then show "se_member_sys_id ((e # rest) ! j) = member_sys_id ((c # cs) ! j)"
      using e1 ih(2) by (cases j) auto
  next
    fix j assume "j < length (e # rest)"
    then show "se_final_weight ((e # rest) ! j) =
          se_base_workload ((e # rest) ! j) * se_role_mult ((e # rest) ! j) *
            se_weight_mod ((e # rest) ! j) +
          0.1 * real (se_recent_count ((e # rest) ! j)) + jitter env (i + j)"
      using e2 ih(2) by (cases j) auto
  qed
qed

lemma hd_sort_descending_first_max:
  assumes "xs \<noteq> []"
  shows "\<exists>pre post. xs = pre @ hd (sort_descending xs) # post \<and>
     (\<forall>x\<in>set pre. final_weight x < final_weight (hd (sort_descending xs))) \<and>
     (\<forall>x\<in>set post. final_weight x \<le> final_weight (hd (sort_descending xs)))"
  using sort_key_hd_first_min [OF assms, of "\<lambda>x. - final_weight x"]
  unfolding sort_descending_def by simp

lemma worker_held_run_eval:
  "fst worker_held_run = AlreadyAssigned \<and>
   fst (snd worker_held_run) =
     [FetchHolder ''s1'' (Inr [(''assigned_to'', ''u9''), (''sys_id'', ''s1'')])] \<and>
   history (snd (snd worker_held_run)) = []"
  by (simp add: run_defs worker_defs Let_def)

lemma worker_redelivery_run_eval:
  "fst worker_redelivery_run = AlreadyAssigned \<and>
   fst (snd worker_redelivery_run) =
     [FetchHolder ''s1'' (Inr [(''assigned_to'', ''u1''), (''sys_id'', ''s1'')])]"
  by (simp add: run_defs worker_defs Let_def)


lemma worker_fresh_run_eval:
  "fst worker_fresh_run = Failed TypeError \<and>
   fst (snd worker_fresh_run) =
     [FetchHolder ''s1'' (Inr [(''assigned_to'', []), (''sys_id'', ''s1'')])] \<and>
   history (snd (snd worker_fresh_run)) = []"
  by (simp add: run_defs worker_defs eval_defs example_defs)

lemma workflow_run_eval:
  "fst workflow_run = Inr False \<and> fst (snd workflow_run) = [] \<and>
   history (snd (snd workflow_run)) = []"
  by (simp add: run_defs workflow_defs eval_defs example_defs)


lemma triple_collapse: "x = (fst x, fst (snd x), snd (snd x))"
  by simp

subsection \<open>C1: no commit once the holder is seen\<close>

text \<open>
  C1. In one processing of a work item by the queue worker, if a fetch of the holder
  (the pre-check or the post-check) returns a non-empty \<^verbatim>\<open>assigned_to\<close>, the worker
  issues no commit call for the item: it writes no decision record and takes one of the
  two skips, already assigned or assigned during processing.
\<close>

theorem no_commit_after_holder_seen:
  "process_record mc env w body = (out, evs, w') \<Longrightarrow>
   (\<exists>e\<in>set evs. saw_holder e) \<Longrightarrow>
   (\<forall>e\<in>set evs. \<not> is_commit e) \<and> history w' = history w \<and>
   (out = AlreadyAssigned \<or> out = AssignedDuringProcessing)"
  unfolding process_record_unfold
  by (auto split: sum.splits prod.splits if_splits)

theorem no_commit_after_holder_seen_witness:
  "fst worker_held_run = AlreadyAssigned \<and>
   fst (snd worker_held_run) =
     [FetchHolder ''s1'' (Inr [(''assigned_to'', ''u9''), (''sys_id'', ''s1'')])] \<and>
   saw_holder (FetchHolder ''s1'' (Inr [(''assigned_to'', ''u9''), (''sys_id'', ''s1'')])) \<and>
   filter is_commit (fst (snd worker_held_run)) = []"
proof -
  have e1: "process_record 50 quiet_env held_world item1 =
      (fst worker_held_run, fst (snd worker_held_run), snd (snd worker_held_run))"
    unfolding worker_held_run_def by (rule triple_collapse)
  have ev1: "fst (snd worker_held_run) =
     [FetchHolder ''s1'' (Inr [(''assigned_to'', ''u9''), (''sys_id'', ''s1'')])]"
    using worker_held_run_eval by (elim conjE)
  have s1: "saw_holder
      (FetchHolder ''s1'' (Inr [(''assigned_to'', ''u9''), (''sys_id'', ''s1'')]))"
    by (simp add: held_def)
  have ex1: "\<exists>e\<in>set (fst (snd worker_held_run)). saw_holder e"
    unfolding ev1 by (simp add: held_def)
  from no_commit_after_holder_seen [OF e1 ex1]
  have "\<forall>e\<in>set (fst (snd worker_held_run)). \<not> is_commit e" by (rule conjunct1)
  then have c1: "filter is_commit (fst (snd worker_held_run)) = []"
    by (simp only: filter_empty_conv)
  have o1: "fst worker_held_run = AlreadyAssigned"
    using worker_held_run_eval by (elim conjE)
  show ?thesis by (intro conjI o1 ev1 s1 c1)
qed

subsection \<open>C2: redelivery after a commit\<close>




subsection \<open>C3: when a decision record is written\<close>

text \<open>
  C3, as the code has it. In both variants a processing issues at most one write of a
  decision record, and none unless its commit call succeeded: without a commit call
  that succeeded, no write of a decision record is issued and the audit store is
  unchanged. A processing of the queue worker that ends in any outcome other than
  assigned (not found, already assigned, no members, no candidate, assigned during
  processing, failed) leaves the audit store unchanged.
\<close>

theorem decision_record_only_after_commit:
  "(process_record mc env w body = (out, evs, w') \<longrightarrow>
     length (filter is_record evs) \<le> 1 \<and>
     ((\<forall>m. Commit (wi_sys_id body) m True \<notin> set evs) \<longrightarrow>
        filter is_record evs = [] \<and> history w' = history w) \<and>
     (out \<noteq> Assigned \<longrightarrow> history w' = history w)) \<and>
   (process_incident_assignment sv v data = (r, evs2, v') \<longrightarrow>
     length (filter is_record evs2) \<le> 1 \<and>
     ((\<forall>m. Commit (number_text (id_incident_number data)) m True \<notin> set evs2) \<longrightarrow>
        filter is_record evs2 = [] \<and> history v' = history v))"
  apply (rule conjI)
   apply (rule impI)
   apply (erule worker_record_rule)
  apply (rule impI)
  apply (erule workflow_record_rule)
  done

theorem decision_record_only_after_commit_witness:
  "fst worker_held_run \<noteq> Assigned \<and>
   filter is_commit (fst (snd worker_held_run)) = [] \<and>
   filter is_record (fst (snd worker_held_run)) = [] \<and>
   history (snd (snd worker_held_run)) = history held_world \<and>
   fst worker_fresh_run = Failed TypeError \<and>
   history (snd (snd worker_fresh_run)) = history fresh_world \<and>
   fst (snd workflow_run) = [] \<and>
   filter is_record (fst (snd workflow_run)) = [] \<and>
   history (snd (snd workflow_run)) = history fresh_world"
proof -
  have e1: "process_record 50 quiet_env held_world item1 =
      (fst worker_held_run, fst (snd worker_held_run), snd (snd worker_held_run))"
    unfolding worker_held_run_def by (rule triple_collapse)
  have e2: "process_record 50 quiet_env fresh_world item1 =
      (fst worker_fresh_run, fst (snd worker_fresh_run), snd (snd worker_fresh_run))"
    unfolding worker_fresh_run_def by (rule triple_collapse)
  have e3: "process_incident_assignment demo_services fresh_world demo_incident =
      (fst workflow_run, fst (snd workflow_run), snd (snd workflow_run))"
    unfolding workflow_run_def by (rule triple_collapse)
  have o1: "fst worker_held_run \<noteq> Assigned"
    using worker_held_run_eval by simp
  have ev1: "fst (snd worker_held_run) =
     [FetchHolder ''s1'' (Inr [(''assigned_to'', ''u9''), (''sys_id'', ''s1'')])]"
    using worker_held_run_eval by (elim conjE)
  have nc1: "\<forall>m. Commit (wi_sys_id item1) m True \<notin> set (fst (snd worker_held_run))"
    unfolding ev1 by simp
  have c1: "filter is_commit (fst (snd worker_held_run)) = []"
    unfolding ev1 by simp
  have o2: "fst worker_fresh_run = Failed TypeError"
    using worker_fresh_run_eval by (elim conjE)
  then have o2': "fst worker_fresh_run \<noteq> Assigned" by simp
  have ev3: "fst (snd workflow_run) = []"
    using workflow_run_eval by (elim conjE)
  have nc3: "\<forall>m. Commit (number_text (id_incident_number demo_incident)) m True \<notin>
      set (fst (snd workflow_run))"
    unfolding ev3 by simp
  note t1 = decision_record_only_after_commit [of 50 quiet_env held_world item1
      "fst worker_held_run" "fst (snd worker_held_run)" "snd (snd worker_held_run)"
      demo_services fresh_world demo_incident
      "fst workflow_run" "fst (snd workflow_run)" "snd (snd workflow_run)"]
  from t1 e1 nc1 have a: "filter is_record (fst (snd worker_held_run)) = []"
    and b: "history (snd (snd worker_held_run)) = history held_world" by blast+
  from t1 e3 nc3 have c: "filter is_record (fst (snd workflow_run)) = []"
    and d: "history (snd (snd workflow_run)) = history fresh_world" by blast+
  note t2 = decision_record_only_after_commit [of 50 quiet_env fresh_world item1
      "fst worker_fresh_run" "fst (snd worker_fresh_run)" "snd (snd worker_fresh_run)"
      demo_services fresh_world demo_incident
      "fst workflow_run" "fst (snd workflow_run)" "snd (snd workflow_run)"]
  from t2 e2 o2' have f: "history (snd (snd worker_fresh_run)) = history fresh_world"
    by blast
  show ?thesis by (intro conjI o1 c1 a b o2 f ev3 c d)
qed

text \<open>
  The claim C3 fails: the processing of a work item that is already held writes no
  decision record.
\<close>

theorem no_record_counterexample:
  "fst worker_held_run = AlreadyAssigned \<and>
   filter is_record (fst (snd worker_held_run)) = [] \<and>
   history (snd (snd worker_held_run)) = []"
  using worker_held_run_eval by simp

subsection \<open>C5: ranking and ties\<close>

lemma calculate_member_weights_sorted_scored:
  assumes "calculate_member_weights cfg parse now ms wl prio = Inr ws"
  shows "collect_weights (score_member cfg parse now wl prio) ms \<noteq> [] \<and>
     ws = sort_descending (collect_weights (score_member cfg parse now wl prio) ms)"
  using assms by (auto simp: calculate_member_weights_def Let_def split: if_splits)

lemma weight_calculator_ranking:
  assumes r: "calculate_member_weights cfg parse now ms wl prio = Inr ws"
  shows "(\<forall>k. filter (\<lambda>w. final_weight w = k) ws =
           filter (\<lambda>w. final_weight w = k)
             (collect_weights (score_member cfg parse now wl prio) ms)) \<and>
      (\<exists>best pre post. select_best_member fmt ws =
           Inr (best, ''Selected '' @ mw_member_name best @ '' due to: '' @
                      join '', '' (reason_parts best) @
                      ''. Final weight: '' @ fmt (final_weight best)) \<and>
         collect_weights (score_member cfg parse now wl prio) ms = pre @ best # post \<and>
         (\<forall>x\<in>set pre. final_weight x < final_weight best) \<and>
         (\<forall>x\<in>set post. final_weight x \<le> final_weight best))"
proof -
  let ?scored = "collect_weights (score_member cfg parse now wl prio) ms"
  from calculate_member_weights_sorted_scored [OF r]
  have ne: "?scored \<noteq> []" and ws: "ws = sort_descending ?scored" by simp_all
  have st: "\<forall>k. filter (\<lambda>w. final_weight w = k) ws =
      filter (\<lambda>w. final_weight w = k) ?scored"
    unfolding ws by (simp add: sort_descending_stable)
  have "ws \<noteq> []" using ne ws sort_descending_mset [of ?scored]
    by (metis mset_zero_iff)
  then obtain b bs where wsb: "ws = b # bs" by (cases ws) auto
  have hb: "hd (sort_descending ?scored) = b" using ws wsb by (metis list.sel(1))
  from hd_sort_descending_first_max [OF ne] obtain pre post where
    d: "?scored = pre @ b # post"
    "\<forall>x\<in>set pre. final_weight x < final_weight b"
    "\<forall>x\<in>set post. final_weight x \<le> final_weight b"
    unfolding hb by blast
  have sel: "select_best_member fmt ws =
         Inr (b, ''Selected '' @ mw_member_name b @ '' due to: '' @
                    join '', '' (reason_parts b) @
                    ''. Final weight: '' @ fmt (final_weight b))"
    by (simp add: select_best_member_def wsb)
  have "\<exists>best pre post. select_best_member fmt ws =
           Inr (best, ''Selected '' @ mw_member_name best @ '' due to: '' @
                      join '', '' (reason_parts best) @
                      ''. Final weight: '' @ fmt (final_weight best)) \<and>
         ?scored = pre @ best # post \<and>
         (\<forall>x\<in>set pre. final_weight x < final_weight best) \<and>
         (\<forall>x\<in>set post. final_weight x \<le> final_weight best)"
    apply (rule exI [of _ b])
    apply (rule exI [of _ pre])
    apply (rule exI [of _ post])
    apply (intro conjI sel d)
    done
  with st show ?thesis by (rule conjI)
qed

lemma worker_ranking:
  assumes r: "score_candidates env 0 cands = Inr entries"
  shows "(\<forall>j<length entries.
         se_final_weight (entries ! j) =
           se_base_workload (entries ! j) * se_role_mult (entries ! j) *
             se_weight_mod (entries ! j) +
           0.1 * real (se_recent_count (entries ! j)) + jitter env j) \<and>
      (\<exists>sel scores. processor_select_best_member env cands = Inr (sel, scores) \<and>
         sorted (map se_final_weight scores) \<and>
         (\<forall>k. filter (\<lambda>e. se_final_weight e = k) scores =
              filter (\<lambda>e. se_final_weight e = k) entries) \<and>
         (entries = [] \<longrightarrow> sel = None) \<and>
         (entries \<noteq> [] \<longrightarrow>
            (\<exists>pre best post. entries = pre @ best # post \<and>
               sel = Some (se_member_sys_id best) \<and>
               (\<forall>x\<in>set pre. se_final_weight best < se_final_weight x) \<and>
               (\<forall>x\<in>set post. se_final_weight best \<le> se_final_weight x))))"
proof -
  have j: "\<forall>j<length entries.
       se_final_weight (entries ! j) =
         se_base_workload (entries ! j) * se_role_mult (entries ! j) *
           se_weight_mod (entries ! j) +
         0.1 * real (se_recent_count (entries ! j)) + jitter env j"
    using score_candidates_jitter [OF r] by simp
  let ?s = "sort_key se_final_weight entries"
  have so: "sorted (map se_final_weight ?s)" by (rule sorted_sort_key)
  have st: "\<forall>k. filter (\<lambda>e. se_final_weight e = k) ?s =
            filter (\<lambda>e. se_final_weight e = k) entries"
    by (simp add: sort_key_stable)
  show ?thesis
  proof (cases "entries = []")
    case True
    then have "processor_select_best_member env cands = Inr (None, [])"
      using r by (simp add: processor_select_best_member_def)
    then show ?thesis using True j by simp
  next
    case False
    then obtain b bs where sb: "?s = b # bs" using set_sort [of se_final_weight entries]
      by (cases ?s) auto
    have hb: "hd ?s = b" using sb by simp
    from sort_key_hd_first_min [OF False, of se_final_weight] obtain pre post where
      d: "entries = pre @ b # post"
      "\<forall>x\<in>set pre. se_final_weight b < se_final_weight x"
      "\<forall>x\<in>set post. se_final_weight b \<le> se_final_weight x"
      unfolding hb by blast
    have p: "processor_select_best_member env cands = Inr (Some (se_member_sys_id b), ?s)"
      using r sb by (simp add: processor_select_best_member_def)
    have ex: "\<exists>pre best post. entries = pre @ best # post \<and>
             Some (se_member_sys_id b) = Some (se_member_sys_id best) \<and>
             (\<forall>x\<in>set pre. se_final_weight best < se_final_weight x) \<and>
             (\<forall>x\<in>set post. se_final_weight best \<le> se_final_weight x)"
      using d by blast
    have inner: "processor_select_best_member env cands =
          Inr (Some (se_member_sys_id b), ?s) \<and>
       sorted (map se_final_weight ?s) \<and>
       (\<forall>k. filter (\<lambda>e. se_final_weight e = k) ?s =
            filter (\<lambda>e. se_final_weight e = k) entries) \<and>
       (entries = [] \<longrightarrow> Some (se_member_sys_id b) = None) \<and>
       (entries \<noteq> [] \<longrightarrow>
          (\<exists>pre best post. entries = pre @ best # post \<and>
             Some (se_member_sys_id b) = Some (se_member_sys_id best) \<and>
             (\<forall>x\<in>set pre. se_final_weight best < se_final_weight x) \<and>
             (\<forall>x\<in>set post. se_final_weight best \<le> se_final_weight x)))"
      using p so st False ex by simp
    show ?thesis
      apply (rule conjI)
       apply (rule j)
      apply (rule exI [of _ "Some (se_member_sys_id b)"])
      apply (rule exI [of _ ?s])
      apply (rule inner)
      done
  qed
qed

text \<open>
  C5, as the code has it. The ranker of the weight calculator is a function of the
  candidates, their score inputs and the clock: it sorts by final weight, highest first,
  and keeps candidates of equal final weight in input order, so the winner is the first
  candidate in input order among those of the highest final weight, and the rationale
  text is built from the winner's name and scores alone. The ranker of the queue worker
  adds a draw of the random generator to every final weight before it sorts, lowest
  first: its order and its winner depend on the draws; candidates whose weights are
  equal after the draws stay in input order.
\<close>

theorem ranking_tie_break:
  "(calculate_member_weights cfg parse now ms wl prio = Inr ws \<longrightarrow>
      (\<forall>k. filter (\<lambda>w. final_weight w = k) ws =
           filter (\<lambda>w. final_weight w = k)
             (collect_weights (score_member cfg parse now wl prio) ms)) \<and>
      (\<exists>best pre post. select_best_member fmt ws =
           Inr (best, ''Selected '' @ mw_member_name best @ '' due to: '' @
                      join '', '' (reason_parts best) @
                      ''. Final weight: '' @ fmt (final_weight best)) \<and>
         collect_weights (score_member cfg parse now wl prio) ms = pre @ best # post \<and>
         (\<forall>x\<in>set pre. final_weight x < final_weight best) \<and>
         (\<forall>x\<in>set post. final_weight x \<le> final_weight best))) \<and>
   (score_candidates env 0 cands = Inr entries \<longrightarrow>
      (\<forall>j<length entries.
         se_final_weight (entries ! j) =
           se_base_workload (entries ! j) * se_role_mult (entries ! j) *
             se_weight_mod (entries ! j) +
           0.1 * real (se_recent_count (entries ! j)) + jitter env j) \<and>
      (\<exists>sel scores. processor_select_best_member env cands = Inr (sel, scores) \<and>
         sorted (map se_final_weight scores) \<and>
         (\<forall>k. filter (\<lambda>e. se_final_weight e = k) scores =
              filter (\<lambda>e. se_final_weight e = k) entries) \<and>
         (entries = [] \<longrightarrow> sel = None) \<and>
         (entries \<noteq> [] \<longrightarrow>
            (\<exists>pre best post. entries = pre @ best # post \<and>
               sel = Some (se_member_sys_id best) \<and>
               (\<forall>x\<in>set pre. se_final_weight best < se_final_weight x) \<and>
               (\<forall>x\<in>set post. se_final_weight best \<le> se_final_weight x)))))"
  apply (rule conjI)
   apply (rule impI)
   apply (erule weight_calculator_ranking)
  apply (rule impI)
  apply (erule worker_ranking)
  done

theorem ranking_tie_break_witness:
  "(\<exists>ws best pre post.
      calculate_member_weights default_config fromisoformat_hhmm (wednesday (hm 12 0))
        [bob, alice, carol] Map.empty ''2'' = Inr ws \<and>
      map mw_member_id ws = [''carol'', ''alice''] \<and>
      fst (projr (select_best_member (\<lambda>x. []) ws)) = best \<and>
      collect_weights (score_member default_config fromisoformat_hhmm
        (wednesday (hm 12 0)) Map.empty ''2'') [bob, alice, carol] = pre @ best # post) \<and>
   (\<exists>entries sel scores.
      score_candidates quiet_env 0 [row1, row2] = Inr entries \<and>
      processor_select_best_member quiet_env [row1, row2] = Inr (sel, scores) \<and>
      sorted (map se_final_weight scores))"
proof -
  have "\<exists>ws. calculate_member_weights default_config fromisoformat_hhmm (wednesday (hm 12 0))
       [bob, alice, carol] Map.empty ''2'' = Inr ws \<and>
       map mw_member_id ws = [''carol'', ''alice'']"
    by (simp add: example_defs eval_defs)
  then obtain ws where
    r: "calculate_member_weights default_config fromisoformat_hhmm (wednesday (hm 12 0))
       [bob, alice, carol] Map.empty ''2'' = Inr ws"
    and n: "map mw_member_id ws = [''carol'', ''alice'']" by auto
  have "\<exists>entries. score_candidates quiet_env 0 [row1, row2] = Inr entries"
    by (simp add: run_defs Let_def)
  then obtain entries where e: "score_candidates quiet_env 0 [row1, row2] = Inr entries"
    by auto
  note t = ranking_tie_break [where cfg = default_config and parse = fromisoformat_hhmm
      and now = "wednesday (hm 12 0)" and ms = "[bob, alice, carol]" and wl = Map.empty
      and prio = "''2''" and ws = ws and fmt = "\<lambda>x. []" and env = quiet_env
      and cands = "[row1, row2]" and entries = entries]
  from t have "calculate_member_weights default_config fromisoformat_hhmm
      (wednesday (hm 12 0)) [bob, alice, carol] Map.empty ''2'' = Inr ws \<longrightarrow>
      (\<forall>k. filter (\<lambda>w. final_weight w = k) ws =
           filter (\<lambda>w. final_weight w = k)
             (collect_weights (score_member default_config fromisoformat_hhmm
                (wednesday (hm 12 0)) Map.empty ''2'') [bob, alice, carol])) \<and>
      (\<exists>best pre post. select_best_member (\<lambda>x. []) ws =
           Inr (best, ''Selected '' @ mw_member_name best @ '' due to: '' @
                      join '', '' (reason_parts best) @
                      ''. Final weight: '' @ []) \<and>
         collect_weights (score_member default_config fromisoformat_hhmm
            (wednesday (hm 12 0)) Map.empty ''2'') [bob, alice, carol] = pre @ best # post \<and>
         (\<forall>x\<in>set pre. final_weight x < final_weight best) \<and>
         (\<forall>x\<in>set post. final_weight x \<le> final_weight best))"
    by (rule conjunct1)
  from this r obtain best pre post where
    sb: "select_best_member (\<lambda>x. []) ws =
           Inr (best, ''Selected '' @ mw_member_name best @ '' due to: '' @
                      join '', '' (reason_parts best) @
                      ''. Final weight: '' @ [])"
    and d: "collect_weights (score_member default_config fromisoformat_hhmm
            (wednesday (hm 12 0)) Map.empty ''2'') [bob, alice, carol] = pre @ best # post"
    by blast
  have f: "fst (projr (select_best_member (\<lambda>x. []) ws)) = best" unfolding sb by simp
  have a: "\<exists>ws best pre post.
      calculate_member_weights default_config fromisoformat_hhmm (wednesday (hm 12 0))
        [bob, alice, carol] Map.empty ''2'' = Inr ws \<and>
      map mw_member_id ws = [''carol'', ''alice''] \<and>
      fst (projr (select_best_member (\<lambda>x. []) ws)) = best \<and>
      collect_weights (score_member default_config fromisoformat_hhmm
        (wednesday (hm 12 0)) Map.empty ''2'') [bob, alice, carol] = pre @ best # post"
    apply (rule exI [of _ ws])
    apply (rule exI [of _ best])
    apply (rule exI [of _ pre])
    apply (rule exI [of _ post])
    apply (intro conjI r n f d)
    done
  from t have "score_candidates quiet_env 0 [row1, row2] = Inr entries \<longrightarrow>
      (\<forall>j<length entries.
         se_final_weight (entries ! j) =
           se_base_workload (entries ! j) * se_role_mult (entries ! j) *
             se_weight_mod (entries ! j) +
           0.1 * real (se_recent_count (entries ! j)) + jitter quiet_env j) \<and>
      (\<exists>sel scores. processor_select_best_member quiet_env [row1, row2] = Inr (sel, scores) \<and>
         sorted (map se_final_weight scores) \<and>
         (\<forall>k. filter (\<lambda>e. se_final_weight e = k) scores =
              filter (\<lambda>e. se_final_weight e = k) entries) \<and>
         (entries = [] \<longrightarrow> sel = None) \<and>
         (entries \<noteq> [] \<longrightarrow>
            (\<exists>pre best post. entries = pre @ best # post \<and>
               sel = Some (se_member_sys_id best) \<and>
               (\<forall>x\<in>set pre. se_final_weight best < se_final_weight x) \<and>
               (\<forall>x\<in>set post. se_final_weight best \<le> se_final_weight x))))"
    by (rule conjunct2)
  from this e obtain sel scores where
    p: "processor_select_best_member quiet_env [row1, row2] = Inr (sel, scores)"
    and so: "sorted (map se_final_weight scores)" by blast
  have b: "\<exists>entries sel scores.
      score_candidates quiet_env 0 [row1, row2] = Inr entries \<and>
      processor_select_best_member quiet_env [row1, row2] = Inr (sel, scores) \<and>
      sorted (map se_final_weight scores)"
    apply (rule exI [of _ entries])
    apply (rule exI [of _ sel])
    apply (rule exI [of _ scores])
    apply (intro conjI e p so)
    done
  from a b show ?thesis by (rule conjI)
qed

text \<open>
  The claim C5 fails on the ranker of the queue worker: the same two candidates, with the
  same score inputs and in the same order, are ranked in two runs that differ in the
  draws of the random generator only; the first-listed candidate wins the first run and
  loses the second.
\<close>

theorem jitter_counterexample:
  "processor_select_best_member quiet_env [row1, row2] =
     processor_select_best_member (quiet_env\<lparr>jitter := jitter_a\<rparr>) [row1, row2] \<and>
   fst (projr (processor_select_best_member (quiet_env\<lparr>jitter := jitter_a\<rparr>)
     [row1, row2])) = Some ''u1'' \<and>
   map se_member_sys_id (snd (projr (processor_select_best_member
     (quiet_env\<lparr>jitter := jitter_a\<rparr>) [row1, row2]))) = [''u1'', ''u2''] \<and>
   fst (projr (processor_select_best_member (quiet_env\<lparr>jitter := jitter_b\<rparr>)
     [row1, row2])) = Some ''u2'' \<and>
   map se_member_sys_id (snd (projr (processor_select_best_member
     (quiet_env\<lparr>jitter := jitter_b\<rparr>) [row1, row2]))) = [''u2'', ''u1'']"
  by (simp add: run_defs worker_defs eval_defs example_defs)

end
